theory Spec2Isabelle
  imports Main
begin

section \<open>The SIP session of a camera call\<close>

text \<open>
  The class \<open>SipSession\<close> drives one call to a camera: it reserves local ports, sends the
  invite through a \<open>SipCall\<close>, wires four \<open>RtpSplitter\<close> objects (audio and video, RTP and
  RTCP), optionally feeds an ffmpeg process, and tears everything down once.

  The session is a record of the fields of the class. The collaborators it calls
  (\<open>SipCall\<close>, \<open>RtpSplitter\<close>, \<open>FfmpegProcess\<close>, the STUN helpers, \<open>reservePorts\<close>, the camera)
  are outside the class: every call the session makes to one of them is appended to a
  trace, with the instant of the call, and what they answer comes from an environment.
  Objects are identified by a number, so that two fields holding the same object hold the
  same number.

  \<open>start\<close> is an async function. It is modelled as running to completion: no other
  callback of the session is delivered while it is suspended at an \<open>await\<close>, and no time
  passes there.
\<close>

subsection \<open>Data\<close>

datatype error = AlreadyStarted | AlreadyEnded | expiredDingError | OtherError nat

datatype SpawnInput = Str string | Num int

text \<open>\<open>video?: SpawnInput[] | false\<close>: absent, the value \<open>false\<close>, or a list of arguments.\<close>

datatype video_option = VideoUndefined | VideoFalse | VideoArgs "SpawnInput list"

record FfmpegOptions =
  ff_input :: "SpawnInput list option"
  ff_video :: video_option
  ff_audio :: "SpawnInput list option"
  ff_output :: "SpawnInput list"

text \<open>The SRTP parameters of a stream (key and salt), read only by \<open>createCryptoLine\<close>.\<close>

type_synonym srtp_options = "nat list \<times> nat list"

record stream_description =
  port :: nat
  rtcpPort :: nat
  iceUFrag :: "string option"
  srtp :: srtp_options

record RtpDescription =
  rd_audio :: stream_description
  rd_video :: stream_description

record SipOptions =
  dingId :: string
  sip_to :: string

datatype stream_type = Audio | Video

text \<open>\<open>sipCall.audioUfrag\<close> and \<open>sipCall.videoUfrag\<close> of the call object with the given identity.\<close>

datatype ufrag = audioUfrag nat | videoUfrag nat

record stun_binding_request =
  rtpSplitter :: nat
  rtcpSplitter :: nat
  rtpDescription :: RtpDescription
  localUfrag :: ufrag
  stream :: stream_type

text \<open>
  The message handler that \<open>forwardPacketsToFfmpeg\<close> registers is a closure over \<open>port\<close>;
  it is kept as the port and run by \<open>run_handler\<close>.
\<close>

datatype handler = ForwardToFfmpeg nat

text \<open>The calls the session makes to its collaborators.\<close>

datatype call =
    SipCall_new nat SipOptions
  | SipCall_destroy nat
  | SipCall_sendBye nat
  | SipCall_invite nat
  | reservePorts nat
  | getUpdatedSipOptions string
  | Splitter_close nat
  | Splitter_addMessageHandler nat handler
  | createStunResponder nat
  | sendStunBindingRequest stun_binding_request
  | Ffmpeg_new "SpawnInput list"
  | Ffmpeg_writeStdin string
  | Ffmpeg_stop
  | onCallEndedSubject_next

text \<open>
  What the session subscribes to through \<open>addSubscriptions\<close>: the end of a call by the
  remote, the keepalive timer \<open>timer(dueTime, period)\<close> whose callback \<open>sendStunRequests\<close>
  has captured the negotiated description, and the first message of the audio and of the
  video splitter.
\<close>

datatype subscription =
    onEndedByRemote nat
  | KeepaliveTimer nat nat RtpDescription
  | AudioLatched
  | VideoLatched

record session =
  hasStarted :: bool
  hasCallEnded :: bool
  sipCall :: nat
  sipOptions :: SipOptions
  audioSplitter :: nat
  audioRtcpSplitter :: nat
  videoSplitter :: nat
  videoRtcpSplitter :: nat
  subscriptions :: "(subscription \<times> bool) list"
  onCallEndedObservers :: nat
  now :: nat
  trace :: "(nat \<times> call) list"
  sipCalls :: nat
  reservations :: nat
  invitations :: nat
  refreshes :: nat

text \<open>
  The fields after \<open>videoRtcpSplitter\<close> are not fields of the class:
  \<open>subscriptions\<close> is the list of the base class \<open>Subscribed\<close>, each entry with whether it
  is still subscribed; \<open>onCallEndedObservers\<close> counts the subscribers of \<open>onCallEnded\<close>
  (each one stops an ffmpeg process); \<open>now\<close> is the clock in milliseconds; \<open>trace\<close> is the
  calls made so far; \<open>sipCalls\<close> is the number of call objects constructed, which names the
  next one; \<open>reservations\<close>, \<open>invitations\<close> and \<open>refreshes\<close> count the questions asked to the
  environment.
\<close>

text \<open>
  The environment: what the \<open>k\<close>-th port reservation, the \<open>k\<close>-th invite and the \<open>k\<close>-th
  request for updated SIP options answer (an error when the promise is rejected).
\<close>

record env =
  env_reservePorts :: "nat \<Rightarrow> error + nat"
  env_invite :: "nat \<Rightarrow> error + RtpDescription"
  env_getUpdatedSipOptions :: "nat \<Rightarrow> error + SipOptions"

subsection \<open>Helpers\<close>

definition emit :: "call \<Rightarrow> session \<Rightarrow> session" where
  "emit c s = s\<lparr>trace := trace s @ [(now s, c)]\<rparr>"

text \<open>The calls made between two states, the second reached from the first.\<close>

definition calls_since :: "session \<Rightarrow> session \<Rightarrow> call list" where
  "calls_since s s' = map snd (drop (length (trace s)) (trace s'))"

text \<open>\<open>Boolean(x)\<close> of a string: only the empty string is falsy.\<close>

definition truthy :: "string \<Rightarrow> bool" where
  "truthy x = (x \<noteq> [])"

text \<open>\<open>Boolean(x)\<close> of an optional string: \<open>undefined\<close> is falsy too.\<close>

definition truthy_opt :: "string option \<Rightarrow> bool" where
  "truthy_opt x = (case x of None \<Rightarrow> False | Some u \<Rightarrow> truthy u)"

text \<open>
  A port number in a template string: its decimal digits (\<open>digit\<close> is only applied
  below ten).
\<close>

definition digit :: "nat \<Rightarrow> char" where
  "digit d = ''0123456789'' ! d"

function show_nat :: "nat \<Rightarrow> string" where
  "show_nat n = (if n < 10 then [digit n] else show_nat (n div 10) @ [digit (n mod 10)])"
  by pat_completeness auto
termination
  by (relation "measure id") auto

declare show_nat.simps [simp del]

text \<open>\<open>lines.join('\n')\<close>.\<close>

fun join_lines :: "string list \<Rightarrow> string" where
  "join_lines [] = []"
| "join_lines [x] = x"
| "join_lines (x # y # ys) = x @ [CHR 0x0A] @ join_lines (y # ys)"

text \<open>
  Modelled from the spec: the base class \<open>Subscribed\<close> is not among the sources.
  \<open>addSubscriptions\<close> captures the subscriptions in the session-scoped set, and
  \<open>unsubscribe\<close> cancels every one of them.
\<close>

definition addSubscriptions :: "subscription list \<Rightarrow> session \<Rightarrow> session" where
  "addSubscriptions subs s = s\<lparr>subscriptions := subscriptions s @ map (\<lambda>x. (x, True)) subs\<rparr>"

definition unsubscribe :: "session \<Rightarrow> session" where
  "unsubscribe s = s\<lparr>subscriptions := map (\<lambda>(x, _). (x, False)) (subscriptions s)\<rparr>"

subsection \<open>The class\<close>

text \<open>
  \<open>createSipCall\<close> after construction: the session has a call, which is destroyed; a new
  call object is constructed and its \<open>onEndedByRemote\<close> is subscribed to. (The field
  \<open>sipOptions\<close> is read-only and keeps the options of the constructor.)
\<close>

definition createSipCall :: "SipOptions \<Rightarrow> session \<Rightarrow> session" where
  "createSipCall opts s =
     (let s1 = emit (SipCall_destroy (sipCall s)) s;
          c = sipCalls s1;
          s2 = emit (SipCall_new c opts) (s1\<lparr>sipCalls := Suc c, sipCall := c\<rparr>)
      in addSubscriptions [onEndedByRemote c] s2)"

text \<open>
  The constructor. Its field initialiser calls \<open>createSipCall\<close> while \<open>this.sipCall\<close> is
  still undefined, so nothing is destroyed and the first call object, number 0, is made.
\<close>

definition SipSession :: "SipOptions \<Rightarrow> nat \<Rightarrow> nat \<Rightarrow> nat \<Rightarrow> nat \<Rightarrow> session" where
  "SipSession opts a ar v vr =
     \<lparr>hasStarted = False, hasCallEnded = False, sipCall = 0, sipOptions = opts,
      audioSplitter = a, audioRtcpSplitter = ar, videoSplitter = v, videoRtcpSplitter = vr,
      subscriptions = [(onEndedByRemote 0, True)], onCallEndedObservers = 0,
      now = 0, trace = [(0, SipCall_new 0 opts)], sipCalls = 1,
      reservations = 0, invitations = 0, refreshes = 0\<rparr>"

text \<open>\<open>onCallEndedSubject.next()\<close>: every subscriber of \<open>onCallEnded\<close> stops its ffmpeg process.\<close>

definition callEnded_next :: "session \<Rightarrow> session" where
  "callEnded_next s =
     ((emit Ffmpeg_stop) ^^ onCallEndedObservers s) (emit onCallEndedSubject_next s)"

definition callEnded :: "bool \<Rightarrow> session \<Rightarrow> session" where
  "callEnded sendBye s =
     (if hasCallEnded s then s
      else
        let s1 = s\<lparr>hasCallEnded := True\<rparr>;
            s2 = (if sendBye then emit (SipCall_sendBye (sipCall s1)) s1 else s1);
            s3 = callEnded_next s2;
            s4 = emit (SipCall_destroy (sipCall s3)) s3;
            s5 = emit (Splitter_close (audioSplitter s4)) s4;
            s6 = emit (Splitter_close (audioRtcpSplitter s5)) s5;
            s7 = emit (Splitter_close (videoSplitter s6)) s6;
            s8 = emit (Splitter_close (videoRtcpSplitter s7)) s7
        in unsubscribe s8)"

definition stop :: "session \<Rightarrow> session" where
  "stop s = callEnded True s"

text \<open>\<open>reservePort(bufferPorts)\<close>: asks for \<open>bufferPorts + 1\<close> ports and returns the first.\<close>

definition reservePort :: "env \<Rightarrow> nat \<Rightarrow> session \<Rightarrow> (error + nat) \<times> session" where
  "reservePort e bufferPorts s =
     (env_reservePorts e (reservations s),
      emit (reservePorts (bufferPorts + 1)) (s\<lparr>reservations := Suc (reservations s)\<rparr>))"

definition invite :: "env \<Rightarrow> session \<Rightarrow> (error + RtpDescription) \<times> session" where
  "invite e s =
     (env_invite e (invitations s),
      emit (SipCall_invite (sipCall s)) (s\<lparr>invitations := Suc (invitations s)\<rparr>))"

definition camera_getUpdatedSipOptions ::
    "env \<Rightarrow> string \<Rightarrow> session \<Rightarrow> (error + SipOptions) \<times> session" where
  "camera_getUpdatedSipOptions e d s =
     (env_getUpdatedSipOptions e (refreshes s),
      emit (getUpdatedSipOptions d) (s\<lparr>refreshes := Suc (refreshes s)\<rparr>))"

text \<open>The closure \<open>sendStunRequests\<close> of \<open>start\<close>; it reads the fields when it is called.\<close>

definition sendStunRequests :: "RtpDescription \<Rightarrow> session \<Rightarrow> session" where
  "sendStunRequests d s =
     (let s1 = emit (sendStunBindingRequest
                  \<lparr>rtpSplitter = audioSplitter s, rtcpSplitter = audioRtcpSplitter s,
                   rtpDescription = d, localUfrag = audioUfrag (sipCall s),
                   stream = Audio\<rparr>) s
      in emit (sendStunBindingRequest
                  \<lparr>rtpSplitter = videoSplitter s1, rtcpSplitter = audioRtcpSplitter s1,
                   rtpDescription = d, localUfrag = videoUfrag (sipCall s1),
                   stream = Video\<rparr>) s1)"

subsection \<open>The transcoder\<close>

definition transcodeVideoStream :: "FfmpegOptions \<Rightarrow> bool" where
  "transcodeVideoStream ff = (ff_video ff \<noteq> VideoFalse)"

definition ffmpegArgs :: "FfmpegOptions \<Rightarrow> SpawnInput list" where
  "ffmpegArgs ff =
     [Str ''-hide_banner'', Str ''-protocol_whitelist'', Str ''pipe,udp,rtp,file,crypto'',
      Str ''-f'', Str ''sdp'']
     @ (case ff_input ff of None \<Rightarrow> [] | Some xs \<Rightarrow> xs)
     @ [Str ''-i'', Str ''pipe:'']
     @ (case ff_audio ff of None \<Rightarrow> [Str ''-acodec'', Str ''aac''] | Some xs \<Rightarrow> xs)
     @ (if transcodeVideoStream ff
        then (case ff_video ff of VideoArgs xs \<Rightarrow> xs | _ \<Rightarrow> [Str ''-vcodec'', Str ''copy''])
        else [])
     @ ff_output ff"

text \<open>
  The lines of the session description, before the filter. \<open>createCryptoLine\<close> belongs to
  a library and is a parameter \<open>cc\<close>.
\<close>

definition inputSdpLines ::
    "(srtp_options \<Rightarrow> string) \<Rightarrow> FfmpegOptions \<Rightarrow> RtpDescription \<Rightarrow> nat \<Rightarrow> nat \<Rightarrow> string list" where
  "inputSdpLines cc ff remoteRtpOptions audioPort videoPort =
     [''v=0'',
      ''o=105202070 3747 461 IN IP4 127.0.0.1'',
      ''s=Talk'',
      ''c=IN IP4 127.0.0.1'',
      ''b=AS:380'',
      ''t=0 0'',
      ''a=rtcp-xr:rcvr-rtt=all:10000 stat-summary=loss,dup,jitt,TTL voip-metrics'',
      ''m=audio '' @ show_nat audioPort @ '' RTP/SAVP 0 101'',
      ''a=rtpmap:0 PCMU/8000'',
      cc (srtp (rd_audio remoteRtpOptions)),
      ''a=rtcp:'' @ show_nat (audioPort + 1) @ '' IN IP4 127.0.0.1'']
     @ (if transcodeVideoStream ff
        then [''m=video '' @ show_nat videoPort @ '' RTP/SAVP 99'',
              ''a=rtpmap:99 H264/90000'',
              cc (srtp (rd_video remoteRtpOptions)),
              ''a=rtcp:'' @ show_nat (videoPort + 1) @ '' IN IP4 127.0.0.1'']
        else [])"

text \<open>What \<open>ff.writeStdin\<close> receives.\<close>

definition sdp_document ::
    "(srtp_options \<Rightarrow> string) \<Rightarrow> FfmpegOptions \<Rightarrow> RtpDescription \<Rightarrow> nat \<Rightarrow> nat \<Rightarrow> string" where
  "sdp_document cc ff remoteRtpOptions audioPort videoPort =
     join_lines (filter truthy (inputSdpLines cc ff remoteRtpOptions audioPort videoPort))"

definition forwardPacketsToFfmpeg :: "nat \<Rightarrow> nat \<Rightarrow> session \<Rightarrow> session" where
  "forwardPacketsToFfmpeg splitter p s =
     emit (Splitter_addMessageHandler splitter (ForwardToFfmpeg p)) s"

text \<open>
  The handler on a message; \<open>isStunMessage\<close> belongs to another module and is a
  parameter. \<open>None\<close> is the \<open>null\<close> of the source (the packet is not forwarded),
  \<open>Some p\<close> is \<open>{ port }\<close>.
\<close>

fun run_handler :: "('m \<Rightarrow> bool) \<Rightarrow> handler \<Rightarrow> 'm \<Rightarrow> nat option" where
  "run_handler isStunMessage (ForwardToFfmpeg p) message =
     (if isStunMessage message then None else Some p)"

definition startTranscoder ::
    "(srtp_options \<Rightarrow> string) \<Rightarrow> FfmpegOptions \<Rightarrow> RtpDescription \<Rightarrow> nat \<Rightarrow> nat \<Rightarrow> session \<Rightarrow> session" where
  "startTranscoder cc ff remoteRtpOptions audioPort videoPort s =
     (let audioRtcpPort = audioPort + 1;
          videoRtcpPort = videoPort + 1;
          s1 = emit (Ffmpeg_new (ffmpegArgs ff)) s;
          s2 = (if transcodeVideoStream ff
                then forwardPacketsToFfmpeg (videoRtcpSplitter s1) videoRtcpPort
                       (forwardPacketsToFfmpeg (videoSplitter s1) videoPort s1)
                else s1);
          s3 = s2\<lparr>onCallEndedObservers := Suc (onCallEndedObservers s2)\<rparr>;
          s4 = emit (Ffmpeg_writeStdin
                       (sdp_document cc ff remoteRtpOptions audioPort videoPort)) s3;
          s5 = forwardPacketsToFfmpeg (audioSplitter s4) audioPort s4
      in forwardPacketsToFfmpeg (audioRtcpSplitter s5) audioRtcpPort s5)"

subsection \<open>\<open>start\<close>\<close>

text \<open>The body of the \<open>try\<close> block after the invite has returned a description.\<close>

definition start_negotiated ::
    "(srtp_options \<Rightarrow> string) \<Rightarrow> FfmpegOptions option \<Rightarrow> RtpDescription \<Rightarrow> nat \<Rightarrow> nat
      \<Rightarrow> session \<Rightarrow> session" where
  "start_negotiated cc ffmpegOptions d audioPort videoPort s =
     (let s1 = (case ffmpegOptions of
                  None \<Rightarrow> s
                | Some ff \<Rightarrow> startTranscoder cc ff d audioPort videoPort s);
          s2 = (if port (rd_audio d) = rtcpPort (rd_audio d)
                then (emit (Splitter_close (audioRtcpSplitter s1)) s1)
                       \<lparr>audioRtcpSplitter := audioSplitter s1\<rparr>
                else s1);
          s3 = (if port (rd_video d) = rtcpPort (rd_video d)
                then (emit (Splitter_close (videoRtcpSplitter s2)) s2)
                       \<lparr>videoRtcpSplitter := videoSplitter s2\<rparr>
                else s2);
          s4 = (if truthy_opt (iceUFrag (rd_video d))
                then sendStunRequests d
                       (emit (createStunResponder (videoSplitter s3))
                          (emit (createStunResponder (audioSplitter s3)) s3))
                else addSubscriptions [KeepaliveTimer (now s3 + 0) 500 d] s3)
      in addSubscriptions [AudioLatched, VideoLatched] s4)"

text \<open>The \<open>try\<close> block: the two reservations, the invite, and the rest.\<close>

definition start_try ::
    "(srtp_options \<Rightarrow> string) \<Rightarrow> env \<Rightarrow> FfmpegOptions option \<Rightarrow> session
      \<Rightarrow> (error + RtpDescription) \<times> session" where
  "start_try cc e ffmpegOptions s =
     (case reservePort e 1 s of
        (Inl err, s1) \<Rightarrow> (Inl err, s1)
      | (Inr videoPort, s1) \<Rightarrow>
          (case reservePort e 1 s1 of
             (Inl err, s2) \<Rightarrow> (Inl err, s2)
           | (Inr audioPort, s2) \<Rightarrow>
               (case invite e s2 of
                  (Inl err, s3) \<Rightarrow> (Inl err, s3)
                | (Inr d, s3) \<Rightarrow>
                    (Inr d, start_negotiated cc ffmpegOptions d audioPort videoPort s3))))"

text \<open>
  \<open>start\<close> calls itself after an expired ding, with no bound on the number of retries:
  it is a partial function, and \<open>None\<close> is the run that never returns.
\<close>

partial_function (option) start ::
    "(srtp_options \<Rightarrow> string) \<Rightarrow> env \<Rightarrow> FfmpegOptions option \<Rightarrow> session
      \<Rightarrow> ((error + RtpDescription) \<times> session) option" where
  "start cc e ffmpegOptions s =
     (if hasStarted s then Some (Inl AlreadyStarted, s)
      else if hasCallEnded (s\<lparr>hasStarted := True\<rparr>)
      then Some (Inl AlreadyEnded, s\<lparr>hasStarted := True\<rparr>)
      else
        (case start_try cc e ffmpegOptions (s\<lparr>hasStarted := True\<rparr>) of
           (Inr d, s1) \<Rightarrow> Some (Inr d, s1)
         | (Inl err, s1) \<Rightarrow>
             if err = expiredDingError
             then (case camera_getUpdatedSipOptions e (dingId (sipOptions s1)) s1 of
                     (Inl err2, s2) \<Rightarrow> Some (Inl err2, s2)
                   | (Inr opts, s2) \<Rightarrow>
                       start cc e ffmpegOptions ((createSipCall opts s2)\<lparr>hasStarted := False\<rparr>))
             else Some (Inl err, callEnded True s1)))"

declare start.simps [code]

subsection \<open>Events after \<open>start\<close>\<close>

text \<open>
  The three callbacks that end the call: \<open>stop()\<close>, the \<open>onEndedByRemote\<close> subscription of
  \<open>createSipCall\<close>, and the \<open>exitCallback\<close> of the ffmpeg process.
\<close>

datatype trigger = Stop | EndedByRemote | FfmpegExit

fun fire :: "trigger \<Rightarrow> session \<Rightarrow> session" where
  "fire Stop s = stop s"
| "fire EndedByRemote s = callEnded False s"
| "fire FfmpegExit s = callEnded True s"

text \<open>
  Modelled from the spec: \<open>timer(dueTime, period)\<close> of the library rxjs fires at
  \<open>dueTime\<close> milliseconds after the subscription and every \<open>period\<close> milliseconds
  thereafter, until it is unsubscribed. The subscription holds the instant of the first
  firing.
\<close>

definition timer_fires :: "nat \<Rightarrow> nat \<Rightarrow> nat \<Rightarrow> bool" where
  "timer_fires due period t = (due \<le> t \<and> (t - due) mod period = 0)"

fun deliver :: "subscription \<times> bool \<Rightarrow> session \<Rightarrow> session" where
  "deliver (KeepaliveTimer due period d, True) s =
     (if timer_fires due period (now s) then sendStunRequests d s else s)"
| "deliver _ s = s"

text \<open>One millisecond: the timers due at this instant fire, then the clock advances.\<close>

definition tick :: "session \<Rightarrow> session" where
  "tick s = (let s1 = fold deliver (subscriptions s) s in s1\<lparr>now := Suc (now s1)\<rparr>)"

definition elapse :: "nat \<Rightarrow> session \<Rightarrow> session" where
  "elapse n s = (tick ^^ n) s"

subsection \<open>Concrete sessions\<close>

text \<open>
  A session on the splitters 1 (audio RTP), 2 (audio RTCP), 3 (video RTP) and
  4 (video RTCP), and environments whose first invite answers a description without ICE
  and without multiplexing, one with the audio RTCP multiplexed, one with both multiplexed
  and ICE, or an error.
\<close>

definition example_options :: SipOptions where
  "example_options = \<lparr>dingId = ''ding'', sip_to = ''sip:camera''\<rparr>"

definition example_session :: session where
  "example_session = SipSession example_options 1 2 3 4"

definition example_createCryptoLine :: "srtp_options \<Rightarrow> string" where
  "example_createCryptoLine k = ''a=crypto:1 AES_CM_128_HMAC_SHA1_80 inline:key''"

definition plain_description :: RtpDescription where
  "plain_description =
     \<lparr>rd_audio = \<lparr>port = 5000, rtcpPort = 5001, iceUFrag = None, srtp = ([], [])\<rparr>,
      rd_video = \<lparr>port = 5002, rtcpPort = 5003, iceUFrag = None, srtp = ([], [])\<rparr>\<rparr>"

definition mux_description :: RtpDescription where
  "mux_description =
     \<lparr>rd_audio = \<lparr>port = 5000, rtcpPort = 5000, iceUFrag = None, srtp = ([], [])\<rparr>,
      rd_video = \<lparr>port = 5002, rtcpPort = 5003, iceUFrag = None, srtp = ([], [])\<rparr>\<rparr>"

definition ice_description :: RtpDescription where
  "ice_description =
     \<lparr>rd_audio = \<lparr>port = 5000, rtcpPort = 5000, iceUFrag = Some ''abcd'', srtp = ([], [])\<rparr>,
      rd_video = \<lparr>port = 5002, rtcpPort = 5002, iceUFrag = Some ''efgh'', srtp = ([], [])\<rparr>\<rparr>"

definition example_env :: "(error + RtpDescription) \<Rightarrow> env" where
  "example_env answer =
     \<lparr>env_reservePorts = (\<lambda>k. Inr (20000 + 2 * k)),
      env_invite = (\<lambda>k. answer),
      env_getUpdatedSipOptions = (\<lambda>k. Inr example_options)\<rparr>"

text \<open>An environment whose first invite finds the ding expired and whose second succeeds.\<close>

definition expired_once_env :: env where
  "expired_once_env =
     \<lparr>env_reservePorts = (\<lambda>k. Inr (20000 + 2 * k)),
      env_invite = (\<lambda>k. if k = 0 then Inl expiredDingError else Inr plain_description),
      env_getUpdatedSipOptions = (\<lambda>k. Inr example_options)\<rparr>"

definition plain_env :: env where
  "plain_env = example_env (Inr plain_description)"

definition mux_env :: env where
  "mux_env = example_env (Inr mux_description)"

definition ice_env :: env where
  "ice_env = example_env (Inr ice_description)"

definition failing_env :: env where
  "failing_env = example_env (Inl (OtherError 0))"

definition example_ffmpegOptions :: FfmpegOptions where
  "example_ffmpegOptions =
     \<lparr>ff_input = None, ff_video = VideoUndefined, ff_audio = None, ff_output = [Str ''out.mp4'']\<rparr>"

definition audio_only_ffmpegOptions :: FfmpegOptions where
  "audio_only_ffmpegOptions =
     \<lparr>ff_input = None, ff_video = VideoFalse, ff_audio = None, ff_output = [Str ''out.aac'']\<rparr>"

text \<open>A recogniser of STUN messages for the examples: one message is the STUN one.\<close>

definition example_isStunMessage :: "string \<Rightarrow> bool" where
  "example_isStunMessage m = (m = ''stun'')"

text \<open>The state a successful \<open>start\<close> leaves, when it returns one.\<close>

definition started :: "env \<Rightarrow> FfmpegOptions option \<Rightarrow> session \<Rightarrow> session" where
  "started e ffmpegOptions s =
     (case start example_createCryptoLine e ffmpegOptions s of
        Some (_, s1) \<Rightarrow> s1
      | None \<Rightarrow> s)"

subsection \<open>Reading the trace\<close>

fun is_sendBye :: "call \<Rightarrow> bool" where
  "is_sendBye (SipCall_sendBye c) = True"
| "is_sendBye _ = False"

text \<open>The number of termination signals sent so far, to any call object.\<close>

definition byes_sent :: "session \<Rightarrow> nat" where
  "byes_sent s = length (filter is_sendBye (map snd (trace s)))"

text \<open>How many times a given call was made so far.\<close>

definition calls_of :: "call \<Rightarrow> session \<Rightarrow> nat" where
  "calls_of c s = count_list (map snd (trace s)) c"

subsection \<open>The calls of a successful \<open>start\<close>\<close>

text \<open>
  The calls that only concern signaling and ports, as opposed to the wiring of the
  splitters, the STUN traffic and the ffmpeg process.
\<close>

fun is_signaling :: "call \<Rightarrow> bool" where
  "is_signaling (SipCall_new c opts) = True"
| "is_signaling (SipCall_destroy c) = True"
| "is_signaling (SipCall_invite c) = True"
| "is_signaling (reservePorts n) = True"
| "is_signaling (getUpdatedSipOptions d) = True"
| "is_signaling _ = False"

definition wiring_calls :: "call list \<Rightarrow> call list" where
  "wiring_calls cs = filter (\<lambda>c. \<not> is_signaling c) cs"

fun is_timer :: "subscription \<times> bool \<Rightarrow> bool" where
  "is_timer (KeepaliveTimer due period d, b) = True"
| "is_timer _ = False"

text \<open>
  \<open>signaling_only s s'\<close>: from \<open>s\<close> to \<open>s'\<close> the session has only reserved ports, invited,
  asked for updated options and replaced its call object.
\<close>

definition signaling_only :: "session \<Rightarrow> session \<Rightarrow> bool" where
  "signaling_only s s' =
     (audioSplitter s' = audioSplitter s \<and> audioRtcpSplitter s' = audioRtcpSplitter s
      \<and> videoSplitter s' = videoSplitter s \<and> videoRtcpSplitter s' = videoRtcpSplitter s
      \<and> now s' = now s \<and> onCallEndedObservers s' = onCallEndedObservers s
      \<and> hasCallEnded s' = hasCallEnded s
      \<and> filter is_timer (subscriptions s') = filter is_timer (subscriptions s)
      \<and> (\<exists>pre. trace s' = trace s @ pre \<and> wiring_calls (map snd pre) = []))"

text \<open>
  The calls of \<open>start_negotiated\<close> in the order it makes them: those of
  \<open>startTranscoder\<close>, those of the multiplex detection, those of the ICE branch; and the
  RTCP references it leaves.
\<close>

definition transcoder_calls ::
    "(srtp_options \<Rightarrow> string) \<Rightarrow> FfmpegOptions option \<Rightarrow> RtpDescription \<Rightarrow> nat \<Rightarrow> nat
      \<Rightarrow> session \<Rightarrow> call list" where
  "transcoder_calls cc ffmpegOptions d audioPort videoPort s =
     (case ffmpegOptions of
        None \<Rightarrow> []
      | Some ff \<Rightarrow>
          Ffmpeg_new (ffmpegArgs ff)
          # (if transcodeVideoStream ff
             then [Splitter_addMessageHandler (videoSplitter s) (ForwardToFfmpeg videoPort),
                   Splitter_addMessageHandler (videoRtcpSplitter s)
                     (ForwardToFfmpeg (videoPort + 1))]
             else [])
          @ [Ffmpeg_writeStdin (sdp_document cc ff d audioPort videoPort),
             Splitter_addMessageHandler (audioSplitter s) (ForwardToFfmpeg audioPort),
             Splitter_addMessageHandler (audioRtcpSplitter s)
               (ForwardToFfmpeg (audioPort + 1))])"

definition mux_calls :: "RtpDescription \<Rightarrow> session \<Rightarrow> call list" where
  "mux_calls d s =
     (if port (rd_audio d) = rtcpPort (rd_audio d)
      then [Splitter_close (audioRtcpSplitter s)] else [])
     @ (if port (rd_video d) = rtcpPort (rd_video d)
        then [Splitter_close (videoRtcpSplitter s)] else [])"

definition audioRtcp_after :: "RtpDescription \<Rightarrow> session \<Rightarrow> nat" where
  "audioRtcp_after d s =
     (if port (rd_audio d) = rtcpPort (rd_audio d) then audioSplitter s
      else audioRtcpSplitter s)"

definition videoRtcp_after :: "RtpDescription \<Rightarrow> session \<Rightarrow> nat" where
  "videoRtcp_after d s =
     (if port (rd_video d) = rtcpPort (rd_video d) then videoSplitter s
      else videoRtcpSplitter s)"

definition stun_round :: "RtpDescription \<Rightarrow> session \<Rightarrow> call list" where
  "stun_round d s =
     [sendStunBindingRequest
        \<lparr>rtpSplitter = audioSplitter s, rtcpSplitter = audioRtcpSplitter s,
         rtpDescription = d, localUfrag = audioUfrag (sipCall s), stream = Audio\<rparr>,
      sendStunBindingRequest
        \<lparr>rtpSplitter = videoSplitter s, rtcpSplitter = audioRtcpSplitter s,
         rtpDescription = d, localUfrag = videoUfrag (sipCall s), stream = Video\<rparr>]"

definition negotiated_calls ::
    "(srtp_options \<Rightarrow> string) \<Rightarrow> FfmpegOptions option \<Rightarrow> RtpDescription \<Rightarrow> nat \<Rightarrow> nat
      \<Rightarrow> session \<Rightarrow> call list" where
  "negotiated_calls cc ffmpegOptions d audioPort videoPort s =
     transcoder_calls cc ffmpegOptions d audioPort videoPort s
     @ mux_calls d s
     @ (if truthy_opt (iceUFrag (rd_video d))
        then [createStunResponder (audioSplitter s), createStunResponder (videoSplitter s)]
             @ stun_round d (s\<lparr>audioRtcpSplitter := audioRtcp_after d s\<rparr>)
        else [])"

text \<open>The handles closed, and the message handlers registered, by a list of calls.\<close>

fun closed_handle :: "call \<Rightarrow> nat list" where
  "closed_handle (Splitter_close h) = [h]"
| "closed_handle _ = []"

definition closed_handles :: "call list \<Rightarrow> nat list" where
  "closed_handles cs = concat (map closed_handle cs)"

fun handler_added :: "call \<Rightarrow> (nat \<times> handler) list" where
  "handler_added (Splitter_addMessageHandler h x) = [(h, x)]"
| "handler_added _ = []"

definition handlers_added :: "call list \<Rightarrow> (nat \<times> handler) list" where
  "handlers_added cs = concat (map handler_added cs)"

definition handlers_on :: "nat \<Rightarrow> call list \<Rightarrow> handler list" where
  "handlers_on h cs = map snd (filter (\<lambda>x. fst x = h) (handlers_added cs))"

text \<open>The STUN binding requests sent by a list of calls, and how a request is wired.\<close>

fun stun_request :: "call \<Rightarrow> stun_binding_request list" where
  "stun_request (sendStunBindingRequest r) = [r]"
| "stun_request _ = []"

definition stun_requests :: "call list \<Rightarrow> stun_binding_request list" where
  "stun_requests cs = concat (map stun_request cs)"

definition request_wiring :: "stun_binding_request \<Rightarrow> stream_type \<times> nat \<times> nat" where
  "request_wiring r = (stream r, rtpSplitter r, rtcpSplitter r)"

text \<open>The splitters on which a STUN responder was installed.\<close>

fun stun_responder :: "call \<Rightarrow> nat list" where
  "stun_responder (createStunResponder h) = [h]"
| "stun_responder _ = []"

definition stun_responders :: "call list \<Rightarrow> nat list" where
  "stun_responders cs = concat (map stun_responder cs)"

text \<open>The STUN binding requests of a trace: the instant and the stream of each.\<close>

fun stun_send :: "nat \<times> call \<Rightarrow> (nat \<times> stream_type) list" where
  "stun_send (t, sendStunBindingRequest r) = [(t, stream r)]"
| "stun_send _ = []"

definition stun_sends :: "(nat \<times> call) list \<Rightarrow> (nat \<times> stream_type) list" where
  "stun_sends tr = concat (map stun_send tr)"

text \<open>What the session has appended to its trace since an earlier state.\<close>

definition trace_since :: "session \<Rightarrow> session \<Rightarrow> (nat \<times> call) list" where
  "trace_since s s' = drop (length (trace s)) (trace s')"

text \<open>
  What a keepalive timer appends to the trace of a session in \<open>n\<close> milliseconds from
  the instant \<open>now s\<close>: a round of requests at each instant where it fires.
\<close>

definition keepalive_rounds :: "nat \<Rightarrow> nat \<Rightarrow> RtpDescription \<Rightarrow> session \<Rightarrow> nat \<Rightarrow> (nat \<times> call) list" where
  "keepalive_rounds due period d s n =
     concat (map (\<lambda>t. if timer_fires due period t then map (Pair t) (stun_round d s) else [])
               [now s..<now s + n])"

text \<open>A media line of a session description starts with \<open>m=\<close>.\<close>

definition is_media_line :: "string \<Rightarrow> bool" where
  "is_media_line l = (take 2 l = ''m='')"

text \<open>The texts written to the standard input of the ffmpeg process by a list of calls.\<close>

fun stdin_write :: "call \<Rightarrow> string list" where
  "stdin_write (Ffmpeg_writeStdin text) = [text]"
| "stdin_write _ = []"

definition stdin_writes :: "call list \<Rightarrow> string list" where
  "stdin_writes cs = concat (map stdin_write cs)"

text \<open>The lines of a text: it is split at every newline, as \<open>text.split('\n')\<close> does.\<close>

fun split_lines :: "string \<Rightarrow> string list" where
  "split_lines [] = [[]]"
| "split_lines (c # cs) =
     (if c = CHR 0x0A then [] # split_lines cs
      else (case split_lines cs of [] \<Rightarrow> [[c]] | l # ls \<Rightarrow> (c # l) # ls))"

section \<open>Properties\<close>

subsection \<open>Teardown in closed form\<close>

lemmas example_defs = example_session_def SipSession_def example_options_def

lemma funpow_emit:
  "((emit c) ^^ n) s = s\<lparr>trace := trace s @ replicate n (now s, c)\<rparr>"
proof (induction n)
  case 0
  show ?case by simp
next
  case (Suc n)
  have "replicate n (now s, c) @ [(now s, c)] = (now s, c) # replicate n (now s, c)"
    by (simp add: replicate_append_same)
  with Suc show ?case by (simp add: emit_def)
qed

lemma callEnded_next_eq:
  "callEnded_next s =
     s\<lparr>trace := trace s @ (now s, onCallEndedSubject_next)
                  # replicate (onCallEndedObservers s) (now s, Ffmpeg_stop)\<rparr>"
  by (simp add: callEnded_next_def funpow_emit emit_def)

lemma callEnded_ended: "hasCallEnded s \<Longrightarrow> callEnded b s = s"
  by (simp add: callEnded_def)

lemma callEnded_eq:
  "\<not> hasCallEnded s \<Longrightarrow>
   callEnded b s =
     s\<lparr>hasCallEnded := True,
       subscriptions := map (\<lambda>(x, _). (x, False)) (subscriptions s),
       trace := trace s @ map (Pair (now s))
         ((if b then [SipCall_sendBye (sipCall s)] else [])
          @ onCallEndedSubject_next # replicate (onCallEndedObservers s) Ffmpeg_stop
          @ [SipCall_destroy (sipCall s), Splitter_close (audioSplitter s),
             Splitter_close (audioRtcpSplitter s), Splitter_close (videoSplitter s),
             Splitter_close (videoRtcpSplitter s)])\<rparr>"
  by (simp add: callEnded_def callEnded_next_eq emit_def unsubscribe_def Let_def)

lemma calls_since_append: "trace s' = trace s @ map (Pair t) cs \<Longrightarrow> calls_since s s' = cs"
  by (simp add: calls_since_def comp_def)

lemma fire_eq: "fire t s = callEnded (t \<noteq> EndedByRemote) s"
  by (cases t) (simp_all add: stop_def)

lemma fold_fire_ended: "hasCallEnded s \<Longrightarrow> fold fire ts s = s"
  by (induction ts) (simp_all add: fire_eq callEnded_ended)

lemma hasCallEnded_callEnded: "hasCallEnded (callEnded b s)"
  by (cases "hasCallEnded s") (simp_all add: callEnded_ended callEnded_eq)

lemma fold_fire_Cons: "fold fire (t # ts) s = callEnded (t \<noteq> EndedByRemote) s"
  by (simp add: fire_eq fold_fire_ended hasCallEnded_callEnded)

subsection \<open>A successful \<open>start\<close> in closed form\<close>

lemma sendStunRequests_eq:
  "sendStunRequests d s = s\<lparr>trace := trace s @ map (Pair (now s)) (stun_round d s)\<rparr>"
  by (simp add: sendStunRequests_def emit_def stun_round_def Let_def)

lemma startTranscoder_eq:
  "startTranscoder cc ff d ap vp s =
     s\<lparr>onCallEndedObservers := Suc (onCallEndedObservers s),
       trace := trace s @ map (Pair (now s)) (transcoder_calls cc (Some ff) d ap vp s)\<rparr>"
  by (simp add: startTranscoder_def forwardPacketsToFfmpeg_def emit_def transcoder_calls_def
      Let_def)

lemma start_negotiated_eq:
  "start_negotiated cc ffo d ap vp s =
     s\<lparr>audioRtcpSplitter := audioRtcp_after d s,
       videoRtcpSplitter := videoRtcp_after d s,
       subscriptions := subscriptions s
         @ (if truthy_opt (iceUFrag (rd_video d)) then []
            else [(KeepaliveTimer (now s) 500 d, True)])
         @ [(AudioLatched, True), (VideoLatched, True)],
       onCallEndedObservers :=
         (case ffo of None \<Rightarrow> onCallEndedObservers s | Some ff \<Rightarrow> Suc (onCallEndedObservers s)),
       trace := trace s @ map (Pair (now s)) (negotiated_calls cc ffo d ap vp s)\<rparr>"
proof (cases ffo)
  case None
  show ?thesis
    unfolding None start_negotiated_def
    by (simp add: Let_def emit_def sendStunRequests_eq addSubscriptions_def
        negotiated_calls_def transcoder_calls_def mux_calls_def audioRtcp_after_def
        videoRtcp_after_def stun_round_def)
next
  case (Some ff)
  show ?thesis
    unfolding Some start_negotiated_def
    by (simp add: Let_def emit_def sendStunRequests_eq addSubscriptions_def
        startTranscoder_eq negotiated_calls_def mux_calls_def audioRtcp_after_def
        videoRtcp_after_def stun_round_def transcoder_calls_def)
qed

lemma signaling_only_trans:
  assumes "signaling_only s s'" and "signaling_only s' s''"
  shows "signaling_only s s''"
proof -
  from assms(1) obtain p where p: "trace s' = trace s @ p" "wiring_calls (map snd p) = []"
    by (auto simp: signaling_only_def)
  from assms(2) obtain q where q: "trace s'' = trace s' @ q" "wiring_calls (map snd q) = []"
    by (auto simp: signaling_only_def)
  have "trace s'' = trace s @ (p @ q) \<and> wiring_calls (map snd (p @ q)) = []"
    using p q by (simp add: wiring_calls_def)
  then have "\<exists>pre. trace s'' = trace s @ pre \<and> wiring_calls (map snd pre) = []"
    by blast
  with assms show ?thesis
    by (simp add: signaling_only_def)
qed

lemma signaling_only_hasStarted: "signaling_only s (s\<lparr>hasStarted := b\<rparr>)"
  by (simp add: signaling_only_def wiring_calls_def)

lemma signaling_only_reservePort: "signaling_only s (snd (reservePort e n s))"
  by (simp add: signaling_only_def wiring_calls_def reservePort_def emit_def)

lemma signaling_only_invite: "signaling_only s (snd (invite e s))"
  by (simp add: signaling_only_def wiring_calls_def invite_def emit_def)

lemma signaling_only_refresh: "signaling_only s (snd (camera_getUpdatedSipOptions e x s))"
  by (simp add: signaling_only_def wiring_calls_def camera_getUpdatedSipOptions_def emit_def)

lemma signaling_only_createSipCall: "signaling_only s (createSipCall opts s)"
  by (simp add: signaling_only_def wiring_calls_def createSipCall_def emit_def Let_def
      addSubscriptions_def)

lemma start_try_cases:
  assumes "start_try cc e ffo s = (r, s1)"
  shows "(\<exists>err. r = Inl err \<and> signaling_only s s1)
       \<or> (\<exists>d ap vp s'. r = Inr d \<and> signaling_only s s'
             \<and> s1 = start_negotiated cc ffo d ap vp s')"
proof -
  obtain r1 s1' where 1: "reservePort e 1 s = (r1, s1')" by (cases "reservePort e 1 s")
  obtain r2 s2' where 2: "reservePort e 1 s1' = (r2, s2')" by (cases "reservePort e 1 s1'")
  obtain r3 s3' where 3: "invite e s2' = (r3, s3')" by (cases "invite e s2'")
  have a: "signaling_only s s1'"
    using signaling_only_reservePort [of s e 1] 1 by simp
  have b: "signaling_only s s2'"
    using signaling_only_reservePort [of s1' e 1] 2 a by (auto intro: signaling_only_trans)
  have c: "signaling_only s s3'"
    using signaling_only_invite [of s2' e] 3 b by (auto intro: signaling_only_trans)
  show ?thesis
  proof (cases r1)
    case (Inl err)
    with assms 1 a show ?thesis by (auto simp: start_try_def)
  next
    case vp: (Inr vp)
    show ?thesis
    proof (cases r2)
      case (Inl err)
      with assms 1 2 vp b show ?thesis by (auto simp: start_try_def)
    next
      case ap: (Inr ap)
      show ?thesis
      proof (cases r3)
        case (Inl err)
        with assms 1 2 3 vp ap c show ?thesis by (auto simp: start_try_def)
      next
        case (Inr d)
        with assms 1 2 3 vp ap
        have "r = Inr d \<and> s1 = start_negotiated cc ffo d ap vp s3'"
          by (auto simp: start_try_def)
        with c show ?thesis by blast
      qed
    qed
  qed
qed

lemma start_success:
  assumes "start cc e ffo s = Some (Inr d, s1)"
  shows "\<exists>s' ap vp. signaling_only s s' \<and> \<not> hasCallEnded s'
           \<and> s1 = start_negotiated cc ffo d ap vp s'"
proof -
  define P where "P = (\<lambda>(cc :: srtp_options \<Rightarrow> string) (e :: env)
      (ffo :: FfmpegOptions option) s (y :: (error + RtpDescription) \<times> session).
        \<forall>d s1. y = (Inr d, s1) \<longrightarrow>
          (\<exists>s' ap vp. signaling_only s s' \<and> \<not> hasCallEnded s'
             \<and> s1 = start_negotiated cc ffo d ap vp s'))"
  have "P cc e ffo s (Inr d, s1)"
  proof (rule start.raw_induct [where P = P, rotated, OF assms], goal_cases)
    case (1 start' cc e ffo s y)
    note IH = 1(1) [unfolded P_def, rule_format] and body = 1(2)
    show ?case unfolding P_def

    proof (intro allI impI)
      fix d s1
      assume y: "y = (Inr d, s1)"
      let ?s0 = "s\<lparr>hasStarted := True\<rparr>"
      from body y have ns: "\<not> hasStarted s" and ne: "\<not> hasCallEnded s"
        by (auto split: if_splits)
      obtain r st where t: "start_try cc e ffo ?s0 = (r, st)"
        by (cases "start_try cc e ffo ?s0")
      have s0: "signaling_only s ?s0"
        by (rule signaling_only_hasStarted)
      from start_try_cases [OF t]
      show "\<exists>s' ap vp. signaling_only s s' \<and> \<not> hasCallEnded s'
              \<and> s1 = start_negotiated cc ffo d ap vp s'"
      proof (elim disjE exE conjE)
        fix d' ap vp s'
        assume r: "r = Inr d'" and so: "signaling_only ?s0 s'"
          and st: "st = start_negotiated cc ffo d' ap vp s'"
        from body y ns ne t r have "d' = d" "st = s1"
          by auto
        moreover have "signaling_only s s'"
          using s0 so by (rule signaling_only_trans)
        moreover have "\<not> hasCallEnded s'"
          using so ne by (simp add: signaling_only_def)
        ultimately show ?thesis
          using st by blast
      next
        fix err
        assume r: "r = Inl err" and so: "signaling_only ?s0 st"
        obtain r2 s2 where g: "camera_getUpdatedSipOptions e (dingId (sipOptions st)) st = (r2, s2)"
          by (cases "camera_getUpdatedSipOptions e (dingId (sipOptions st)) st")
        from body y ns ne t r g obtain opts where
          rec: "start' cc e ffo ((createSipCall opts s2)\<lparr>hasStarted := False\<rparr>) = Some (Inr d, s1)"
          by (auto split: if_splits sum.splits)
        let ?sr = "(createSipCall opts s2)\<lparr>hasStarted := False\<rparr>"
        from IH [OF rec refl] obtain s' ap vp where
          ih: "signaling_only ?sr s'" "\<not> hasCallEnded s'"
              "s1 = start_negotiated cc ffo d ap vp s'"
          by blast
        have "signaling_only st s2"
          using signaling_only_refresh [of st e "dingId (sipOptions st)"] g by simp
        then have "signaling_only st ?sr"
          by (blast intro: signaling_only_trans signaling_only_createSipCall
              signaling_only_hasStarted)
        with s0 so ih(1) have "signaling_only s s'"
          by (blast intro: signaling_only_trans)
        with ih show ?thesis by blast
      qed
    qed
  qed
  then show ?thesis by (simp add: P_def)
qed

lemma negotiated_calls_cong:
  assumes "signaling_only s s'"
  shows "negotiated_calls cc ffo d ap vp s'
           = negotiated_calls cc ffo d ap vp (s\<lparr>sipCall := sipCall s'\<rparr>)"
  using assms
  by (simp add: signaling_only_def negotiated_calls_def transcoder_calls_def mux_calls_def
      stun_round_def audioRtcp_after_def split: option.split)

lemma start_success_trace:
  assumes "start cc e ffo s = Some (Inr d, s1)"
  shows "\<exists>ap vp pre.
           trace s1 = trace s @ pre
             @ map (Pair (now s)) (negotiated_calls cc ffo d ap vp (s\<lparr>sipCall := sipCall s1\<rparr>))
         \<and> wiring_calls (map snd pre) = []"
proof -
  from start_success [OF assms] obtain s' ap vp where
    so: "signaling_only s s'" and s1: "s1 = start_negotiated cc ffo d ap vp s'"
    by blast
  from so obtain p where p: "trace s' = trace s @ p" "wiring_calls (map snd p) = []"
    by (auto simp: signaling_only_def)
  have n: "now s' = now s"
    using so by (simp add: signaling_only_def)
  have "trace s1 = trace s @ p @ map (Pair (now s)) (negotiated_calls cc ffo d ap vp s')"
    by (simp add: s1 start_negotiated_eq p n)
  moreover have "sipCall s1 = sipCall s'"
    by (simp add: s1 start_negotiated_eq)
  ultimately show ?thesis
    using p(2) negotiated_calls_cong [OF so] by auto
qed

lemma start_success_calls:
  assumes "start cc e ffo s = Some (Inr d, s1)"
  shows "\<exists>ap vp pre.
           calls_since s s1
             = pre @ negotiated_calls cc ffo d ap vp (s\<lparr>sipCall := sipCall s1\<rparr>)
         \<and> wiring_calls pre = []"
proof -
  from start_success_trace [OF assms] obtain ap vp p where
    "trace s1 = trace s @ p
       @ map (Pair (now s)) (negotiated_calls cc ffo d ap vp (s\<lparr>sipCall := sipCall s1\<rparr>))"
    and "wiring_calls (map snd p) = []"
    by blast
  then have "calls_since s s1
               = map snd p @ negotiated_calls cc ffo d ap vp (s\<lparr>sipCall := sipCall s1\<rparr>)
             \<and> wiring_calls (map snd p) = []"
    by (simp add: calls_since_def comp_def)
  then show ?thesis by blast
qed

lemma start_success_fields:
  assumes "start cc e ffo s = Some (Inr d, s1)"
  shows "audioSplitter s1 = audioSplitter s" "videoSplitter s1 = videoSplitter s"
    "audioRtcpSplitter s1 = audioRtcp_after d s" "videoRtcpSplitter s1 = videoRtcp_after d s"
    "now s1 = now s" "\<not> hasCallEnded s1" "\<not> hasCallEnded s"
    "filter is_timer (subscriptions s1) =
       filter is_timer (subscriptions s)
       @ (if truthy_opt (iceUFrag (rd_video d)) then []
          else [(KeepaliveTimer (now s) 500 d, True)])"
proof -
  from start_success [OF assms] obtain s' ap vp where
    so: "signaling_only s s'" and ne: "\<not> hasCallEnded s'"
    and s1: "s1 = start_negotiated cc ffo d ap vp s'"
    by blast
  show "audioSplitter s1 = audioSplitter s" "videoSplitter s1 = videoSplitter s"
    "audioRtcpSplitter s1 = audioRtcp_after d s" "videoRtcpSplitter s1 = videoRtcp_after d s"
    "now s1 = now s" "\<not> hasCallEnded s1" "\<not> hasCallEnded s"
    "filter is_timer (subscriptions s1) =
       filter is_timer (subscriptions s)
       @ (if truthy_opt (iceUFrag (rd_video d)) then []
          else [(KeepaliveTimer (now s) 500 d, True)])"
    using so ne
    by (simp_all add: s1 start_negotiated_eq signaling_only_def audioRtcp_after_def
        videoRtcp_after_def)
qed

lemma closed_handles_append: "closed_handles (xs @ ys) = closed_handles xs @ closed_handles ys"
  by (simp add: closed_handles_def)

lemma closed_handles_signaling: "wiring_calls cs = [] \<Longrightarrow> closed_handles cs = []"
proof (induction cs)
  case Nil
  show ?case by (simp add: closed_handles_def)
next
  case (Cons c cs)
  then show ?case
    by (cases c) (simp_all add: closed_handles_def wiring_calls_def split: if_splits)
qed

lemma handlers_added_append:
  "handlers_added (xs @ ys) = handlers_added xs @ handlers_added ys"
  by (simp add: handlers_added_def)

lemma handlers_added_signaling: "wiring_calls cs = [] \<Longrightarrow> handlers_added cs = []"
proof (induction cs)
  case Nil
  show ?case by (simp add: handlers_added_def)
next
  case (Cons c cs)
  then show ?case
    by (cases c) (simp_all add: handlers_added_def wiring_calls_def split: if_splits)
qed

lemma closed_handles_negotiated:
  "closed_handles (negotiated_calls cc ffo d ap vp s) =
     (if port (rd_audio d) = rtcpPort (rd_audio d) then [audioRtcpSplitter s] else [])
     @ (if port (rd_video d) = rtcpPort (rd_video d) then [videoRtcpSplitter s] else [])"
  by (cases ffo)
     (auto simp: closed_handles_def negotiated_calls_def transcoder_calls_def mux_calls_def
      stun_round_def)

lemma handlers_added_negotiated:
  "handlers_added (negotiated_calls cc ffo d ap vp s) =
     (case ffo of
        None \<Rightarrow> []
      | Some ff \<Rightarrow>
          (if transcodeVideoStream ff
           then [(videoSplitter s, ForwardToFfmpeg vp),
                 (videoRtcpSplitter s, ForwardToFfmpeg (vp + 1))]
           else [])
          @ [(audioSplitter s, ForwardToFfmpeg ap),
             (audioRtcpSplitter s, ForwardToFfmpeg (ap + 1))])"
  by (cases ffo)
     (auto simp: handlers_added_def negotiated_calls_def transcoder_calls_def mux_calls_def
      stun_round_def)

lemma start_try_eq:
  "start_try cc e ffo s =
     (case env_reservePorts e (reservations s) of
        Inl err \<Rightarrow>
          (Inl err, s\<lparr>reservations := Suc (reservations s),
                       trace := trace s @ map (Pair (now s)) [reservePorts 2]\<rparr>)
      | Inr vp \<Rightarrow>
          (case env_reservePorts e (Suc (reservations s)) of
             Inl err \<Rightarrow>
               (Inl err, s\<lparr>reservations := Suc (Suc (reservations s)),
                            trace := trace s @ map (Pair (now s)) [reservePorts 2, reservePorts 2]\<rparr>)
           | Inr ap \<Rightarrow>
               (case env_invite e (invitations s) of
                  Inl err \<Rightarrow>
                    (Inl err, s\<lparr>reservations := Suc (Suc (reservations s)),
                                 invitations := Suc (invitations s),
                                 trace := trace s @ map (Pair (now s))
                                   [reservePorts 2, reservePorts 2, SipCall_invite (sipCall s)]\<rparr>)
                | Inr d \<Rightarrow>
                    (Inr d, start_negotiated cc ffo d ap vp
                       (s\<lparr>reservations := Suc (Suc (reservations s)),
                          invitations := Suc (invitations s),
                          trace := trace s @ map (Pair (now s))
                            [reservePorts 2, reservePorts 2, SipCall_invite (sipCall s)]\<rparr>)))))"
  by (simp add: start_try_def reservePort_def invite_def emit_def numeral_2_eq_2 [symmetric]
      split: sum.split)

lemma start_invited:
  assumes "\<not> hasStarted s" and "\<not> hasCallEnded s"
    and "env_reservePorts e (reservations s) = Inr vp"
    and "env_reservePorts e (Suc (reservations s)) = Inr ap"
    and "env_invite e (invitations s) = Inr d"
  shows "start cc e ffo s =
     Some (Inr d, start_negotiated cc ffo d ap vp
       (s\<lparr>hasStarted := True,
          reservations := Suc (Suc (reservations s)),
          invitations := Suc (invitations s),
          trace := trace s @ map (Pair (now s))
            [reservePorts 2, reservePorts 2, SipCall_invite (sipCall s)]\<rparr>))"
  using assms by (subst start.simps) (simp add: start_try_eq)

lemma createSipCall_eq:
  "createSipCall opts s =
     s\<lparr>sipCall := sipCalls s, sipCalls := Suc (sipCalls s),
       subscriptions := subscriptions s @ [(onEndedByRemote (sipCalls s), True)],
       trace := trace s @ map (Pair (now s))
         [SipCall_destroy (sipCall s), SipCall_new (sipCalls s) opts]\<rparr>"
  by (simp add: createSipCall_def emit_def addSubscriptions_def Let_def)

lemma calls_since_trans:
  assumes "trace s' = trace s @ p" and "trace s'' = trace s' @ q"
  shows "calls_since s s'' = calls_since s s' @ calls_since s' s''"
  using assms by (simp add: calls_since_def)

lemma closed_handles_teardown:
  assumes "\<not> hasCallEnded x"
  shows "closed_handles (calls_since x (callEnded b x)) =
           [audioSplitter x, audioRtcpSplitter x, videoSplitter x, videoRtcpSplitter x]"
proof -
  have "calls_since x (callEnded b x) =
        (if b then [SipCall_sendBye (sipCall x)] else [])
        @ onCallEndedSubject_next # replicate (onCallEndedObservers x) Ffmpeg_stop
        @ [SipCall_destroy (sipCall x), Splitter_close (audioSplitter x),
           Splitter_close (audioRtcpSplitter x), Splitter_close (videoSplitter x),
           Splitter_close (videoRtcpSplitter x)]"
    by (rule calls_since_append [where t = "now x"]) (simp add: callEnded_eq [OF assms])
  then show ?thesis
    by (simp add: closed_handles_def)
qed

subsection \<open>The concrete sessions, started\<close>

lemma example_session_simps:
  "hasStarted example_session = False" "hasCallEnded example_session = False"
  "sipCall example_session = 0" "sipOptions example_session = example_options"
  "audioSplitter example_session = 1" "audioRtcpSplitter example_session = 2"
  "videoSplitter example_session = 3" "videoRtcpSplitter example_session = 4"
  "subscriptions example_session = [(onEndedByRemote 0, True)]"
  "onCallEndedObservers example_session = 0" "now example_session = 0"
  "trace example_session = [(0, SipCall_new 0 example_options)]"
  "sipCalls example_session = 1" "reservations example_session = 0"
  "invitations example_session = 0" "refreshes example_session = 0"
  by (simp_all add: example_session_def SipSession_def)

lemma start_example:
  "start example_createCryptoLine (example_env (Inr d)) ffo example_session =
     Some (Inr d, start_negotiated example_createCryptoLine ffo d 20002 20000
       (example_session\<lparr>hasStarted := True, reservations := 2, invitations := 1,
          trace := trace example_session @ map (Pair 0)
            [reservePorts 2, reservePorts 2, SipCall_invite 0]\<rparr>))"
proof -
  have "start example_createCryptoLine (example_env (Inr d)) ffo example_session =
     Some (Inr d, start_negotiated example_createCryptoLine ffo d 20002 20000
       (example_session\<lparr>hasStarted := True,
          reservations := Suc (Suc (reservations example_session)),
          invitations := Suc (invitations example_session),
          trace := trace example_session @ map (Pair (now example_session))
            [reservePorts 2, reservePorts 2, SipCall_invite (sipCall example_session)]\<rparr>))"
    by (rule start_invited) (simp_all add: example_defs example_env_def)
  then show ?thesis
    by (simp add: example_defs numeral_2_eq_2)
qed

lemma started_example:
  "started (example_env (Inr d)) ffo example_session =
     start_negotiated example_createCryptoLine ffo d 20002 20000
       (example_session\<lparr>hasStarted := True, reservations := 2, invitations := 1,
          trace := trace example_session @ map (Pair 0)
            [reservePorts 2, reservePorts 2, SipCall_invite 0]\<rparr>)"
  by (simp add: started_def start_example)

lemma start_started_example:
  "start example_createCryptoLine (example_env (Inr d)) ffo example_session =
     Some (Inr d, started (example_env (Inr d)) ffo example_session)"
  by (simp add: started_example start_example)

subsection \<open>The clock and the keepalive timer\<close>

lemma deliver_other: "\<not> (is_timer x \<and> snd x) \<Longrightarrow> deliver x s = s"
  by (cases "(x, s)" rule: deliver.cases) simp_all

lemma fold_deliver_idle:
  "\<forall>x \<in> set subs. \<not> (is_timer x \<and> snd x) \<Longrightarrow> fold deliver subs s = s"
  by (induction subs) (simp_all add: deliver_other)

lemma fold_deliver_filter: "fold deliver subs s = fold deliver (filter is_timer subs) s"
  by (induction subs arbitrary: s) (simp_all add: deliver_other)

lemma stun_round_frame [simp]:
  "stun_round d (s\<lparr>now := t, trace := tr\<rparr>) = stun_round d s"
  by (simp add: stun_round_def)

lemma elapse_Suc: "elapse (Suc n) s = tick (elapse n s)"
  by (simp add: elapse_def)

lemma elapse_idle:
  assumes "\<forall>x \<in> set (subscriptions s). \<not> (is_timer x \<and> snd x)"
  shows "elapse n s = s\<lparr>now := now s + n\<rparr>"
proof (induction n)
  case 0
  show ?case by (simp add: elapse_def)
next
  case (Suc n)
  show ?case
    using assms by (simp add: elapse_Suc Suc tick_def fold_deliver_idle)
qed

lemma elapse_keepalive:
  assumes "filter is_timer (subscriptions s) = [(KeepaliveTimer due period d, True)]"
  shows "elapse n s =
     s\<lparr>now := now s + n, trace := trace s @ keepalive_rounds due period d s n\<rparr>"
proof (induction n)
  case 0
  show ?case by (simp add: elapse_def keepalive_rounds_def)
next
  case (Suc n)
  let ?x = "s\<lparr>now := now s + n, trace := trace s @ keepalive_rounds due period d s n\<rparr>"
  have "fold deliver (subscriptions ?x) ?x = deliver (KeepaliveTimer due period d, True) ?x"
    by (subst fold_deliver_filter) (simp add: assms)
  then have "tick ?x =
     s\<lparr>now := now s + Suc n,
       trace := trace s @ keepalive_rounds due period d s n
         @ (if timer_fires due period (now s + n)
            then map (Pair (now s + n)) (stun_round d s) else [])\<rparr>"
    by (simp add: tick_def sendStunRequests_eq)
  then show ?case
    by (simp add: elapse_Suc Suc keepalive_rounds_def)
qed

lemma ceiling_div_step:
  fixes p n :: nat
  assumes "0 < p"
  shows "(Suc n + (p - 1)) div p = (if n mod p = 0 then Suc ((n + (p - 1)) div p) else (n + (p - 1)) div p)"
    and "n mod p = 0 \<Longrightarrow> p * ((n + (p - 1)) div p) = n"
proof -
  define q r where "q = n div p" and "r = n mod p"
  have n: "n = p * q + r" and r: "r < p"
    using assms by (simp_all add: q_def r_def)
  have a: "(n + (p - 1)) div p = (if r = 0 then q else Suc q)"
  proof (cases "r = 0")
    case True
    have "(n + (p - 1)) div p = (p * q + (p - 1)) div p"
      using True n by simp
    also have "\<dots> = q + (p - 1) div p"
      using assms by (simp only: div_mult_self4)
    also have "\<dots> = q"
      using assms by simp
    finally show ?thesis
      using True by simp
  next
    case False
    have "n + (p - 1) = p * Suc q + (r - 1)"
      using False n assms by (simp add: algebra_simps)
    then have "(n + (p - 1)) div p = (p * Suc q + (r - 1)) div p"
      by (simp only:)
    also have "\<dots> = Suc q + (r - 1) div p"
      using assms by (simp only: div_mult_self4)
    also have "\<dots> = Suc q"
      using r by simp
    finally show ?thesis
      using False by simp
  qed
  have b: "(Suc n + (p - 1)) div p = Suc q"
  proof -
    have "Suc n + (p - 1) = p * Suc q + r"
      using n assms by (simp add: algebra_simps)
    then have "(Suc n + (p - 1)) div p = (p * Suc q + r) div p"
      by (simp only:)
    also have "\<dots> = Suc q + r div p"
      using assms by (simp only: div_mult_self4)
    also have "\<dots> = Suc q"
      using r by simp
    finally show ?thesis .
  qed
  show "(Suc n + (p - 1)) div p = (if n mod p = 0 then Suc ((n + (p - 1)) div p) else (n + (p - 1)) div p)"
    unfolding a b r_def by simp
  show "p * ((n + (p - 1)) div p) = n" if "n mod p = 0"
  proof -
    have z: "r = 0"
      using that by (simp only: r_def)
    with a have "(n + (p - 1)) div p = q"
      by simp
    moreover have "p * q = n"
      using n z by (simp only: add_0_right)
    ultimately show ?thesis
      by (simp only:)
  qed
qed

lemma period_instants:
  assumes "0 < p"
  shows "filter (timer_fires a p) [a..<a + n] = map (\<lambda>k. a + p * k) [0..<(n + (p - 1)) div p]"
proof (induction n)
  case 0
  have "(p - 1) div p = 0"
    using assms by simp
  then show ?case by simp
next
  case (Suc n)
  have "[a..<a + Suc n] = [a..<a + n] @ [a + n]"
    by simp
  then have "filter (timer_fires a p) [a..<a + Suc n] =
          map (\<lambda>k. a + p * k) [0..<(n + (p - 1)) div p]
          @ (if n mod p = 0 then [a + n] else [])"
    by (simp add: Suc timer_fires_def)
  also have "\<dots> = map (\<lambda>k. a + p * k) [0..<(Suc n + (p - 1)) div p]"
    using ceiling_div_step [OF assms, of n]
    by (simp del: add_Suc)
  finally show ?case .
qed

lemma stun_sends_append: "stun_sends (xs @ ys) = stun_sends xs @ stun_sends ys"
  by (simp add: stun_sends_def)

lemma stun_sends_keepalive:
  "stun_sends (keepalive_rounds a 500 d s n) =
     concat (map (\<lambda>k. [(a + 500 * k, Audio), (a + 500 * k, Video)]) [0..<(n + 499) div 500])"
    if "now s = a"
proof -
  have "stun_sends (keepalive_rounds a 500 d s n) =
          concat (map (\<lambda>t. [(t, Audio), (t, Video)]) (filter (timer_fires a 500) [a..<a + n]))"
    unfolding keepalive_rounds_def that
    by (induction n) (simp_all add: stun_sends_def stun_round_def)
  then show ?thesis
    using period_instants [of 500 a n] by (simp add: comp_def)
qed

lemma stun_responders_signaling: "wiring_calls cs = [] \<Longrightarrow> stun_responders cs = []"
proof (induction cs)
  case Nil
  show ?case by (simp add: stun_responders_def)
next
  case (Cons c cs)
  then show ?case
    by (cases c) (simp_all add: stun_responders_def wiring_calls_def split: if_splits)
qed

lemma stun_responders_append:
  "stun_responders (xs @ ys) = stun_responders xs @ stun_responders ys"
  by (simp add: stun_responders_def)

lemma stun_sends_signaling: "wiring_calls (map snd tr) = [] \<Longrightarrow> stun_sends tr = []"
proof (induction tr)
  case Nil
  show ?case by (simp add: stun_sends_def)
next
  case (Cons x tr)
  obtain t c where x: "x = (t, c)" by (cases x)
  from Cons show ?case
    unfolding x by (cases c) (simp_all add: stun_sends_def wiring_calls_def split: if_splits)
qed

lemma stun_responders_negotiated:
  "stun_responders (negotiated_calls cc ffo d ap vp s) =
     (if truthy_opt (iceUFrag (rd_video d)) then [audioSplitter s, videoSplitter s] else [])"
  by (cases ffo)
     (auto simp: stun_responders_def negotiated_calls_def transcoder_calls_def mux_calls_def
      stun_round_def)

lemma stun_sends_negotiated:
  "stun_sends (map (Pair t) (negotiated_calls cc ffo d ap vp s)) =
     (if truthy_opt (iceUFrag (rd_video d)) then [(t, Audio), (t, Video)] else [])"
  by (cases ffo)
     (auto simp: stun_sends_def negotiated_calls_def transcoder_calls_def mux_calls_def
      stun_round_def)

lemma deliver_closes_nothing:
  "\<exists>tr. deliver sub x = x\<lparr>trace := trace x @ tr\<rparr> \<and> closed_handles (map snd tr) = []"
proof (cases "is_timer sub \<and> snd sub")
  case True
  then obtain due period d where sub: "sub = (KeepaliveTimer due period d, True)"
    by (cases sub rule: is_timer.cases) auto
  show ?thesis
  proof (cases "timer_fires due period (now x)")
    case True
    have "deliver sub x = x\<lparr>trace := trace x @ map (Pair (now x)) (stun_round d x)\<rparr>
        \<and> closed_handles (map snd (map (Pair (now x)) (stun_round d x))) = []"
      using sub True by (simp add: sendStunRequests_eq closed_handles_def stun_round_def)
    then show ?thesis by blast
  next
    case False
    have "deliver sub x = x\<lparr>trace := trace x @ []\<rparr> \<and> closed_handles (map snd []) = []"
      using sub False by (simp add: closed_handles_def)
    then show ?thesis by blast
  qed
next
  case False
  then have "deliver sub x = x\<lparr>trace := trace x @ []\<rparr> \<and> closed_handles (map snd []) = []"
    by (simp add: deliver_other closed_handles_def)
  then show ?thesis by blast
qed

lemma fold_deliver_closes_nothing:
  "\<exists>tr. fold deliver subs x = x\<lparr>trace := trace x @ tr\<rparr> \<and> closed_handles (map snd tr) = []"
proof (induction subs arbitrary: x)
  case Nil
  have "fold deliver [] x = x\<lparr>trace := trace x @ []\<rparr> \<and> closed_handles (map snd []) = []"
    by (simp add: closed_handles_def)
  then show ?case by blast
next
  case (Cons a subs)
  from deliver_closes_nothing [of a x] obtain t1 where
    1: "deliver a x = x\<lparr>trace := trace x @ t1\<rparr>" "closed_handles (map snd t1) = []"
    by blast
  from Cons [of "x\<lparr>trace := trace x @ t1\<rparr>"] obtain t2 where
    2: "fold deliver subs (x\<lparr>trace := trace x @ t1\<rparr>)
          = x\<lparr>trace := trace x @ t1, trace := trace (x\<lparr>trace := trace x @ t1\<rparr>) @ t2\<rparr>"
       "closed_handles (map snd t2) = []"
    by auto
  have "fold deliver (a # subs) x = x\<lparr>trace := trace x @ (t1 @ t2)\<rparr>
      \<and> closed_handles (map snd (t1 @ t2)) = []"
    using 1 2 by (simp add: closed_handles_append)
  then show ?case by blast
qed

lemma elapse_closes_nothing:
  "\<exists>tr. elapse n x = x\<lparr>now := now x + n, trace := trace x @ tr\<rparr>
        \<and> closed_handles (map snd tr) = []"
proof (induction n)
  case 0
  have "elapse 0 x = x\<lparr>now := now x + 0, trace := trace x @ []\<rparr>
      \<and> closed_handles (map snd []) = []"
    by (simp add: elapse_def closed_handles_def)
  then show ?case by blast
next
  case (Suc n)
  then obtain t1 where
    1: "elapse n x = x\<lparr>now := now x + n, trace := trace x @ t1\<rparr>"
       "closed_handles (map snd t1) = []"
    by blast
  let ?y = "x\<lparr>now := now x + n, trace := trace x @ t1\<rparr>"
  from fold_deliver_closes_nothing [of "subscriptions ?y" ?y] obtain t2 where
    2: "fold deliver (subscriptions ?y) ?y = ?y\<lparr>trace := trace ?y @ t2\<rparr>"
       "closed_handles (map snd t2) = []"
    by blast
  have "elapse (Suc n) x = x\<lparr>now := now x + Suc n, trace := trace x @ (t1 @ t2)\<rparr>
      \<and> closed_handles (map snd (t1 @ t2)) = []"
    using 1 2 by (simp add: elapse_Suc tick_def closed_handles_append)
  then show ?case by blast
qed

subsection \<open>The guarded teardown\<close>

text \<open>
  Claim C1, as the code has it. On a session that has not ended, any non-empty sequence
  of the three triggers (\<open>stop()\<close>, the end of the call by the remote, the exit of the
  ffmpeg process) leaves the state that the first trigger alone leaves, and \<open>stop()\<close>
  called any number of times leaves the state of one \<open>stop()\<close>. That teardown sets
  \<open>hasCallEnded\<close>, publishes the end of the call once, destroys the signaling client once,
  closes the four splitter references, cancels every subscription of the session, and
  sends one bye when the trigger is \<open>stop()\<close> or the exit of ffmpeg and none when the
  remote ended the call. After it, no trigger changes anything.
\<close>

theorem teardown_runs_once:
  assumes "\<not> hasCallEnded s"
  shows "fold fire (t # ts) s = callEnded (t \<noteq> EndedByRemote) s
    \<and> fold fire (replicate (Suc n) Stop) s = stop s
    \<and> hasCallEnded (callEnded b s)
    \<and> calls_since s (callEnded b s) =
        (if b then [SipCall_sendBye (sipCall s)] else [])
        @ onCallEndedSubject_next # replicate (onCallEndedObservers s) Ffmpeg_stop
        @ [SipCall_destroy (sipCall s), Splitter_close (audioSplitter s),
           Splitter_close (audioRtcpSplitter s), Splitter_close (videoSplitter s),
           Splitter_close (videoRtcpSplitter s)]
    \<and> (\<forall>x \<in> set (subscriptions (callEnded b s)). \<not> snd x)
    \<and> (\<forall>ts'. fold fire ts' (callEnded b s) = callEnded b s)"
proof -
  have 1: "fold fire (t # ts) s = callEnded (t \<noteq> EndedByRemote) s"
    by (rule fold_fire_Cons)
  have 2: "fold fire (replicate (Suc n) Stop) s = stop s"
    by (simp only: replicate_Suc fold_fire_Cons stop_def) simp
  have 3: "hasCallEnded (callEnded b s)"
    by (rule hasCallEnded_callEnded)
  have 4: "calls_since s (callEnded b s) =
        (if b then [SipCall_sendBye (sipCall s)] else [])
        @ onCallEndedSubject_next # replicate (onCallEndedObservers s) Ffmpeg_stop
        @ [SipCall_destroy (sipCall s), Splitter_close (audioSplitter s),
           Splitter_close (audioRtcpSplitter s), Splitter_close (videoSplitter s),
           Splitter_close (videoRtcpSplitter s)]"
    by (rule calls_since_append [where t = "now s"]) (simp add: callEnded_eq [OF assms])
  have 5: "\<forall>x \<in> set (subscriptions (callEnded b s)). \<not> snd x"
    by (auto simp: callEnded_eq [OF assms])
  have 6: "\<forall>ts'. fold fire ts' (callEnded b s) = callEnded b s"
    by (simp add: fold_fire_ended hasCallEnded_callEnded)
  from 1 2 3 4 5 6 show ?thesis by blast
qed

theorem teardown_runs_once_witness:
  "\<not> hasCallEnded example_session
   \<and> fold fire [Stop, EndedByRemote, FfmpegExit, Stop] example_session = stop example_session
   \<and> byes_sent (fold fire [Stop, EndedByRemote, FfmpegExit, Stop] example_session) = 1
   \<and> calls_since example_session (stop example_session) =
       [SipCall_sendBye 0, onCallEndedSubject_next, SipCall_destroy 0, Splitter_close 1,
        Splitter_close 2, Splitter_close 3, Splitter_close 4]"
proof -
  have h: "\<not> hasCallEnded example_session"
    by (simp add: example_defs)
  note T = teardown_runs_once [OF h, of Stop "[EndedByRemote, FfmpegExit, Stop]" 0 True]
  have a: "fold fire [Stop, EndedByRemote, FfmpegExit, Stop] example_session
             = stop example_session"
    using T by (simp add: stop_def del: fold_simps)
  have b: "byes_sent (stop example_session) = 1"
    by code_simp
  have c: "calls_since example_session (stop example_session) =
       [SipCall_sendBye 0, onCallEndedSubject_next, SipCall_destroy 0, Splitter_close 1,
        Splitter_close 2, Splitter_close 3, Splitter_close 4]"
    using T by (simp add: stop_def example_defs del: fold_simps)
  from h a b c show ?thesis by (simp del: fold_simps)
qed

text \<open>
  The claim as stated asks for exactly one termination signal whatever the triggers are.
  When the remote ends the call first and \<open>stop()\<close> follows, no bye is sent at all.
\<close>

theorem remote_end_sends_no_bye_counterexample:
  "byes_sent (fold fire [EndedByRemote, Stop] example_session) = 0"
  by code_simp

subsection \<open>Usage errors of \<open>start\<close>\<close>

text \<open>
  Claim C2, as the code has it. \<open>start\<close> on a session that has been started fails with
  \<open>AlreadyStarted\<close> and leaves the session as it was, whether the session has ended or
  not. \<open>start\<close> on a session that has ended and was never started fails with
  \<open>AlreadyEnded\<close>, and the session differs in one field: \<open>hasStarted\<close> is now true.
\<close>

theorem start_usage_errors:
  "(hasStarted s \<longrightarrow> start cc e ff s = Some (Inl AlreadyStarted, s)) \<and>
   (\<not> hasStarted s \<and> hasCallEnded s \<longrightarrow>
      start cc e ff s = Some (Inl AlreadyEnded, s\<lparr>hasStarted := True\<rparr>))"
  by (subst start.simps, subst (2) start.simps) simp

theorem start_usage_errors_witness:
  "hasStarted (started plain_env None example_session)
   \<and> start example_createCryptoLine plain_env None (started plain_env None example_session)
       = Some (Inl AlreadyStarted, started plain_env None example_session)
   \<and> \<not> hasStarted (stop example_session) \<and> hasCallEnded (stop example_session)
   \<and> start example_createCryptoLine plain_env None (stop example_session)
       = Some (Inl AlreadyEnded, (stop example_session)\<lparr>hasStarted := True\<rparr>)"
proof -
  have a: "hasStarted (started plain_env None example_session)"
    by (simp add: plain_env_def started_example start_negotiated_eq)
  have b: "\<not> hasStarted (stop example_session) \<and> hasCallEnded (stop example_session)"
    by code_simp
  show ?thesis
    using a b
      start_usage_errors [of "started plain_env None example_session"
        example_createCryptoLine plain_env None]
      start_usage_errors [of "stop example_session" example_createCryptoLine plain_env None]
    by blast
qed

text \<open>
  The claim as stated has the failing call change nothing. A session stopped before it
  was ever started has \<open>hasStarted\<close> false; the \<open>start\<close> that fails with \<open>AlreadyEnded\<close>
  leaves it true.
\<close>

theorem start_after_end_sets_started_counterexample:
  "start example_createCryptoLine plain_env None (stop example_session)
     = Some (Inl AlreadyEnded, (stop example_session)\<lparr>hasStarted := True\<rparr>)
   \<and> hasStarted (stop example_session) = False
   \<and> hasStarted ((stop example_session)\<lparr>hasStarted := True\<rparr>) = True"
  by (subst start.simps) (simp add: stop_def callEnded_eq example_defs)

subsection \<open>Closing the splitters\<close>

text \<open>
  Claim C3, as the code has it. Teardown of any session that has not ended calls
  \<open>close()\<close> once on each of the four splitter references the session holds, in the order
  audio RTP, audio RTCP, video RTP, video RTCP. After a \<open>start\<close> that returned a
  description on four distinct splitters, from the call of \<open>start\<close> to the end of a
  teardown at any later time: the original RTCP splitter of each stream is closed exactly
  once (at aliasing time when the stream is multiplexed, by teardown otherwise); the RTP
  splitter of a stream that is not multiplexed is closed exactly once, and the RTP
  splitter of a multiplexed stream twice, once through the RTP reference and once through
  the aliased RTCP reference; and after aliasing no field of the session holds the
  original RTCP splitter.
\<close>

theorem teardown_closes_each_reference:
  assumes "start cc e ffo s = Some (Inr d, s1)"
    and "distinct [audioSplitter s, audioRtcpSplitter s, videoSplitter s, videoRtcpSplitter s]"
  shows "(\<forall>x. \<not> hasCallEnded x \<longrightarrow>
            closed_handles (calls_since x (callEnded b x)) =
              [audioSplitter x, audioRtcpSplitter x, videoSplitter x, videoRtcpSplitter x])
    \<and> count_list (closed_handles (calls_since s (callEnded b (elapse n s1)))) (audioSplitter s)
        = (if port (rd_audio d) = rtcpPort (rd_audio d) then 2 else 1)
    \<and> count_list (closed_handles (calls_since s (callEnded b (elapse n s1))))
          (audioRtcpSplitter s) = 1
    \<and> count_list (closed_handles (calls_since s (callEnded b (elapse n s1)))) (videoSplitter s)
        = (if port (rd_video d) = rtcpPort (rd_video d) then 2 else 1)
    \<and> count_list (closed_handles (calls_since s (callEnded b (elapse n s1))))
          (videoRtcpSplitter s) = 1
    \<and> (port (rd_audio d) = rtcpPort (rd_audio d) \<longrightarrow>
         audioRtcpSplitter s \<notin> {audioSplitter (elapse n s1), audioRtcpSplitter (elapse n s1),
                               videoSplitter (elapse n s1), videoRtcpSplitter (elapse n s1)})
    \<and> (port (rd_video d) = rtcpPort (rd_video d) \<longrightarrow>
         videoRtcpSplitter s \<notin> {audioSplitter (elapse n s1), audioRtcpSplitter (elapse n s1),
                               videoSplitter (elapse n s1), videoRtcpSplitter (elapse n s1)})"
proof -
  note f = start_success_fields [OF assms(1)]
  from start_success_trace [OF assms(1)] obtain ap vp pre where
    t: "trace s1 = trace s @ pre
          @ map (Pair (now s)) (negotiated_calls cc ffo d ap vp (s\<lparr>sipCall := sipCall s1\<rparr>))"
    and pre: "wiring_calls (map snd pre) = []"
    by blast
  from elapse_closes_nothing [of n s1] obtain tr where
    e: "elapse n s1 = s1\<lparr>now := now s1 + n, trace := trace s1 @ tr\<rparr>"
    and tr: "closed_handles (map snd tr) = []"
    by blast
  let ?x = "elapse n s1"
  have fx: "audioSplitter ?x = audioSplitter s" "audioRtcpSplitter ?x = audioRtcp_after d s"
    "videoSplitter ?x = videoSplitter s" "videoRtcpSplitter ?x = videoRtcp_after d s"
    "\<not> hasCallEnded ?x"
    using f by (simp_all add: e)
  have c1: "closed_handles (calls_since s s1) =
        (if port (rd_audio d) = rtcpPort (rd_audio d) then [audioRtcpSplitter s] else [])
        @ (if port (rd_video d) = rtcpPort (rd_video d) then [videoRtcpSplitter s] else [])"
    by (simp add: calls_since_def t closed_handles_append closed_handles_signaling [OF pre]
        closed_handles_negotiated comp_def)
  have c2: "closed_handles (calls_since s1 ?x) = []"
    by (simp add: calls_since_def e tr)
  have c3: "closed_handles (calls_since ?x (callEnded b ?x)) =
           [audioSplitter s, audioRtcp_after d s, videoSplitter s, videoRtcp_after d s]"
    using closed_handles_teardown [OF fx(5), of b] by (simp only: fx)
  have t2: "trace ?x = trace s1 @ tr"
    by (simp add: e)
  have t3: "trace (callEnded b ?x) = trace ?x @ drop (length (trace ?x)) (trace (callEnded b ?x))"
    by (simp add: callEnded_eq [OF fx(5)])
  have "calls_since s ?x = calls_since s s1 @ calls_since s1 ?x"
    using t t2 by (rule calls_since_trans [where p = "pre @ _"])
  moreover have "trace ?x = trace s @ (pre
      @ map (Pair (now s)) (negotiated_calls cc ffo d ap vp (s\<lparr>sipCall := sipCall s1\<rparr>))
      @ tr)"
    by (simp add: t2 t)
  then have "calls_since s (callEnded b ?x)
      = calls_since s ?x @ calls_since ?x (callEnded b ?x)"
    using t3 by (rule calls_since_trans)
  ultimately have all: "closed_handles (calls_since s (callEnded b ?x)) =
        (if port (rd_audio d) = rtcpPort (rd_audio d) then [audioRtcpSplitter s] else [])
        @ (if port (rd_video d) = rtcpPort (rd_video d) then [videoRtcpSplitter s] else [])
        @ [audioSplitter s, audioRtcp_after d s, videoSplitter s, videoRtcp_after d s]"
    by (simp add: closed_handles_append c1 c2 c3)
  have g: "\<forall>x. \<not> hasCallEnded x \<longrightarrow>
            closed_handles (calls_since x (callEnded b x)) =
              [audioSplitter x, audioRtcpSplitter x, videoSplitter x, videoRtcpSplitter x]"
    by (simp add: closed_handles_teardown)
  show ?thesis
    unfolding all fx using assms(2) g
    by (auto simp: audioRtcp_after_def videoRtcp_after_def)
qed

theorem teardown_closes_each_reference_witness:
  "start example_createCryptoLine mux_env None example_session
     = Some (Inr mux_description, started mux_env None example_session)
   \<and> distinct [audioSplitter example_session, audioRtcpSplitter example_session,
        videoSplitter example_session, videoRtcpSplitter example_session]
   \<and> \<not> hasCallEnded (started mux_env None example_session)
   \<and> closed_handles (calls_since (started mux_env None example_session)
         (stop (started mux_env None example_session))) = [1, 1, 3, 4]
   \<and> count_list (closed_handles (calls_since example_session
         (stop (elapse 600 (started mux_env None example_session))))) 1 = 2
   \<and> count_list (closed_handles (calls_since example_session
         (stop (elapse 600 (started mux_env None example_session))))) 2 = 1"
proof -
  have h: "start example_createCryptoLine mux_env None example_session
             = Some (Inr mux_description, started mux_env None example_session)"
    by (simp add: mux_env_def start_started_example)
  have d: "distinct [audioSplitter example_session, audioRtcpSplitter example_session,
        videoSplitter example_session, videoRtcpSplitter example_session]"
    by (simp add: example_session_simps)
  have f: "audioSplitter (started mux_env None example_session) = 1"
    "audioRtcpSplitter (started mux_env None example_session) = 1"
    "videoSplitter (started mux_env None example_session) = 3"
    "videoRtcpSplitter (started mux_env None example_session) = 4"
    "\<not> hasCallEnded (started mux_env None example_session)"
    by (simp_all add: mux_env_def started_example start_negotiated_eq audioRtcp_after_def
        videoRtcp_after_def mux_description_def example_session_simps)
  have m: "port (rd_audio mux_description) = rtcpPort (rd_audio mux_description)"
    by (simp add: mux_description_def)
  note T = teardown_closes_each_reference [OF h d, of True 600]
  have a: "closed_handles (calls_since (started mux_env None example_session)
         (stop (started mux_env None example_session))) = [1, 1, 3, 4]"
    using T [THEN conjunct1] f by (simp add: stop_def)
  have b: "count_list (closed_handles (calls_since example_session
         (stop (elapse 600 (started mux_env None example_session))))) 1 = 2"
    using T [THEN conjunct2, THEN conjunct1] m
    by (simp add: stop_def example_session_simps)
  have c: "count_list (closed_handles (calls_since example_session
         (stop (elapse 600 (started mux_env None example_session))))) 2 = 1"
    using T [THEN conjunct2, THEN conjunct2, THEN conjunct1]
    by (simp add: stop_def example_session_simps)
  from h d f(5) a b c show ?thesis by blast
qed

text \<open>
  The claim as stated has every handle closed exactly once. With the audio RTCP
  multiplexed, the audio RTP and RTCP references both hold splitter 1 after \<open>start\<close>, and
  \<open>stop()\<close> leaves two calls of \<open>close()\<close> on it.
\<close>

theorem aliased_splitter_closed_twice_counterexample:
  "audioSplitter (started mux_env None example_session) = 1
   \<and> audioRtcpSplitter (started mux_env None example_session) = 1
   \<and> calls_of (Splitter_close 1) (stop (started mux_env None example_session)) = 2"
  by (simp add: mux_env_def started_example start_negotiated_eq audioRtcp_after_def
      videoRtcp_after_def mux_description_def stop_def callEnded_eq calls_of_def
      negotiated_calls_def transcoder_calls_def mux_calls_def truthy_opt_def
      example_session_simps)

subsection \<open>ICE or keepalive\<close>

text \<open>
  Claim C4. \<open>start\<close> returns a description, on a session that had no keepalive timer.
  A video ICE user-fragment is one that \<open>Boolean\<close> finds truthy: present and not empty.

  With such a fragment: a STUN responder was installed on the audio and on the video
  splitter and on no other; one round of binding requests was sent during \<open>start\<close>,
  audio then video; the session has no keepalive timer, and however much time elapses
  after \<open>start\<close> nothing more is added to the trace.

  Without it: no STUN responder was installed and no request was sent during \<open>start\<close>
  itself; in the \<open>n\<close> milliseconds that follow \<open>start\<close>, the requests sent are one for
  audio and one for video at each instant \<open>500 * k\<close> milliseconds after \<open>start\<close> with
  \<open>500 * k < n\<close>, so at 0 ms and every 500 ms; and once a trigger has torn the session
  down, however much time elapses nothing more is added to the trace.
\<close>

theorem nat_traversal_branch:
  assumes "start cc e ffo s = Some (Inr d, s1)"
    and "filter is_timer (subscriptions s) = []"
  shows "(truthy_opt (iceUFrag (rd_video d)) \<longrightarrow>
            stun_responders (calls_since s s1) = [audioSplitter s, videoSplitter s]
          \<and> stun_sends (trace_since s s1) = [(now s, Audio), (now s, Video)]
          \<and> filter is_timer (subscriptions s1) = []
          \<and> (\<forall>n. trace (elapse n s1) = trace s1))
       \<and> (\<not> truthy_opt (iceUFrag (rd_video d)) \<longrightarrow>
            stun_responders (calls_since s s1) = []
          \<and> stun_sends (trace_since s s1) = []
          \<and> (\<forall>n. stun_sends (trace_since s1 (elapse n s1)) =
                concat (map (\<lambda>k. [(now s + 500 * k, Audio), (now s + 500 * k, Video)])
                          [0..<(n + 499) div 500]))
          \<and> (\<forall>n m t. trace (elapse m (fire t (elapse n s1))) = trace (fire t (elapse n s1))))"
proof -
  note f = start_success_fields [OF assms(1)]
  from start_success_trace [OF assms(1)] obtain ap vp pre where
    t: "trace s1 = trace s @ pre
          @ map (Pair (now s)) (negotiated_calls cc ffo d ap vp (s\<lparr>sipCall := sipCall s1\<rparr>))"
    and pre: "wiring_calls (map snd pre) = []"
    by blast
  from start_success_calls [OF assms(1)] obtain ap' vp' pre' where
    c: "calls_since s s1
          = pre' @ negotiated_calls cc ffo d ap' vp' (s\<lparr>sipCall := sipCall s1\<rparr>)"
    and pre': "wiring_calls pre' = []"
    by blast
  have r: "stun_responders (calls_since s s1) =
      (if truthy_opt (iceUFrag (rd_video d)) then [audioSplitter s, videoSplitter s] else [])"
    by (simp add: c stun_responders_append stun_responders_signaling [OF pre']
        stun_responders_negotiated)
  have q: "stun_sends (trace_since s s1) =
      (if truthy_opt (iceUFrag (rd_video d)) then [(now s, Audio), (now s, Video)] else [])"
    by (simp add: trace_since_def t stun_sends_append stun_sends_signaling [OF pre]
        stun_sends_negotiated)
  have tm: "filter is_timer (subscriptions s1) =
      (if truthy_opt (iceUFrag (rd_video d)) then []
       else [(KeepaliveTimer (now s) 500 d, True)])"
    using f(8) assms(2) by simp
  have ice: "\<forall>n. trace (elapse n s1) = trace s1" if "truthy_opt (iceUFrag (rd_video d))"
  proof
    fix n
    have "\<forall>x \<in> set (subscriptions s1). \<not> (is_timer x \<and> snd x)"
      using tm that by (auto simp: filter_empty_conv)
    then show "trace (elapse n s1) = trace s1"
      by (simp add: elapse_idle)
  qed
  have ka: "elapse n s1 =
      s1\<lparr>now := now s1 + n, trace := trace s1 @ keepalive_rounds (now s) 500 d s1 n\<rparr>"
    if "\<not> truthy_opt (iceUFrag (rd_video d))" for n
    using tm that by (intro elapse_keepalive) simp
  have sends: "\<forall>n. stun_sends (trace_since s1 (elapse n s1)) =
                concat (map (\<lambda>k. [(now s + 500 * k, Audio), (now s + 500 * k, Video)])
                          [0..<(n + 499) div 500])"
    if "\<not> truthy_opt (iceUFrag (rd_video d))"
    by (simp add: ka [OF that] trace_since_def stun_sends_keepalive [OF f(5)])
  have after: "\<forall>n m t. trace (elapse m (fire t (elapse n s1))) = trace (fire t (elapse n s1))"
    if "\<not> truthy_opt (iceUFrag (rd_video d))"
  proof (intro allI)
    fix n m t
    let ?x = "fire t (elapse n s1)"
    have "\<not> hasCallEnded (elapse n s1)"
      using f(6) by (simp add: ka [OF that])
    then have "\<forall>x \<in> set (subscriptions ?x). \<not> (is_timer x \<and> snd x)"
      by (auto simp: fire_eq callEnded_eq)
    then show "trace (elapse m ?x) = trace ?x"
      by (simp add: elapse_idle)
  qed
  from r q tm ice sends after show ?thesis by simp
qed

theorem nat_traversal_branch_witness:
  "start example_createCryptoLine ice_env None example_session
     = Some (Inr ice_description, started ice_env None example_session)
   \<and> start example_createCryptoLine plain_env None example_session
     = Some (Inr plain_description, started plain_env None example_session)
   \<and> filter is_timer (subscriptions example_session) = []
   \<and> truthy_opt (iceUFrag (rd_video ice_description))
   \<and> \<not> truthy_opt (iceUFrag (rd_video plain_description))
   \<and> stun_responders (calls_since example_session (started ice_env None example_session))
       = [1, 3]
   \<and> stun_sends (trace_since example_session (started ice_env None example_session))
       = [(0, Audio), (0, Video)]
   \<and> trace (elapse 1001 (started ice_env None example_session))
       = trace (started ice_env None example_session)
   \<and> stun_sends (trace_since (started plain_env None example_session)
         (elapse 1001 (started plain_env None example_session)))
       = [(0, Audio), (0, Video), (500, Audio), (500, Video), (1000, Audio), (1000, Video)]
   \<and> trace (elapse 1001 (fire Stop (elapse 600 (started plain_env None example_session))))
       = trace (fire Stop (elapse 600 (started plain_env None example_session)))"
proof -
  have hi: "start example_createCryptoLine ice_env None example_session
     = Some (Inr ice_description, started ice_env None example_session)"
    by (simp add: ice_env_def start_started_example)
  have hp: "start example_createCryptoLine plain_env None example_session
     = Some (Inr plain_description, started plain_env None example_session)"
    by (simp add: plain_env_def start_started_example)
  have nt: "filter is_timer (subscriptions example_session) = []"
    by (simp add: example_session_simps)
  have ti: "truthy_opt (iceUFrag (rd_video ice_description))"
    by (simp add: ice_description_def truthy_opt_def truthy_def)
  have tp: "\<not> truthy_opt (iceUFrag (rd_video plain_description))"
    by (simp add: plain_description_def truthy_opt_def)
  have r: "concat (map (\<lambda>k. [(0 + 500 * k, Audio), (0 + 500 * k, Video)])
                    [0..<(1001 + 499) div 500])
        = [(0::nat, Audio), (0, Video), (500, Audio), (500, Video), (1000, Audio), (1000, Video)]"
    by code_simp
  note I = nat_traversal_branch [OF hi nt]
  note P = nat_traversal_branch [OF hp nt]
  have a: "stun_responders (calls_since example_session (started ice_env None example_session))
       = [1, 3]"
    "stun_sends (trace_since example_session (started ice_env None example_session))
       = [(0, Audio), (0, Video)]"
    "trace (elapse 1001 (started ice_env None example_session))
       = trace (started ice_env None example_session)"
    using I ti by (simp_all add: example_session_simps)
  have b: "stun_sends (trace_since (started plain_env None example_session)
         (elapse 1001 (started plain_env None example_session)))
       = [(0, Audio), (0, Video), (500, Audio), (500, Video), (1000, Audio), (1000, Video)]"
    using P tp r by (simp add: example_session_simps)
  have c: "trace (elapse 1001 (fire Stop (elapse 600 (started plain_env None example_session))))
       = trace (fire Stop (elapse 600 (started plain_env None example_session)))"
    using P tp by blast
  from hi hp nt ti tp a b c show ?thesis by blast
qed

subsection \<open>Port-multiplex detection\<close>

text \<open>
  Claim C5. After a \<open>start\<close> that returned a description: the RTP references are the
  ones the session had; for audio and for video independently, when the remote's RTP port
  equals its RTCP port the RTCP reference is now the RTP splitter, and otherwise it is the
  RTCP splitter the session had; and the handles closed during \<open>start\<close> are exactly the
  RTCP splitters of the multiplexed streams, each once. So, the two RTCP splitters being
  two objects, each was closed during \<open>start\<close> if and only if its stream is multiplexed.
\<close>

theorem rtcp_mux_aliasing:
  assumes "start cc e ffo s = Some (Inr d, s1)"
  shows "audioSplitter s1 = audioSplitter s \<and> videoSplitter s1 = videoSplitter s
    \<and> audioRtcpSplitter s1 =
        (if port (rd_audio d) = rtcpPort (rd_audio d) then audioSplitter s1
         else audioRtcpSplitter s)
    \<and> videoRtcpSplitter s1 =
        (if port (rd_video d) = rtcpPort (rd_video d) then videoSplitter s1
         else videoRtcpSplitter s)
    \<and> closed_handles (calls_since s s1) =
        (if port (rd_audio d) = rtcpPort (rd_audio d) then [audioRtcpSplitter s] else [])
        @ (if port (rd_video d) = rtcpPort (rd_video d) then [videoRtcpSplitter s] else [])
    \<and> (audioRtcpSplitter s \<noteq> videoRtcpSplitter s \<longrightarrow>
         (audioRtcpSplitter s \<in> set (closed_handles (calls_since s s1))
            \<longleftrightarrow> port (rd_audio d) = rtcpPort (rd_audio d))
       \<and> (videoRtcpSplitter s \<in> set (closed_handles (calls_since s s1))
            \<longleftrightarrow> port (rd_video d) = rtcpPort (rd_video d)))"
proof -
  note f = start_success_fields [OF assms]
  from start_success_calls [OF assms] obtain ap vp pre where
    c: "calls_since s s1 = pre @ negotiated_calls cc ffo d ap vp (s\<lparr>sipCall := sipCall s1\<rparr>)"
    and pre: "wiring_calls pre = []"
    by blast
  have cl: "closed_handles (calls_since s s1) =
        (if port (rd_audio d) = rtcpPort (rd_audio d) then [audioRtcpSplitter s] else [])
        @ (if port (rd_video d) = rtcpPort (rd_video d) then [videoRtcpSplitter s] else [])"
    by (simp add: c closed_handles_append closed_handles_signaling [OF pre]
        closed_handles_negotiated)
  have a: "audioRtcpSplitter s1 =
        (if port (rd_audio d) = rtcpPort (rd_audio d) then audioSplitter s1
         else audioRtcpSplitter s)"
    by (simp add: f audioRtcp_after_def)
  have v: "videoRtcpSplitter s1 =
        (if port (rd_video d) = rtcpPort (rd_video d) then videoSplitter s1
         else videoRtcpSplitter s)"
    by (simp add: f videoRtcp_after_def)
  have m: "audioRtcpSplitter s \<noteq> videoRtcpSplitter s \<longrightarrow>
         (audioRtcpSplitter s \<in> set (closed_handles (calls_since s s1))
            \<longleftrightarrow> port (rd_audio d) = rtcpPort (rd_audio d))
       \<and> (videoRtcpSplitter s \<in> set (closed_handles (calls_since s s1))
            \<longleftrightarrow> port (rd_video d) = rtcpPort (rd_video d))"
    unfolding cl by auto
  from f(1,2) a v cl m show ?thesis by blast
qed

theorem rtcp_mux_aliasing_witness:
  "start example_createCryptoLine mux_env None example_session
     = Some (Inr mux_description, started mux_env None example_session)
   \<and> audioRtcpSplitter (started mux_env None example_session) = 1
   \<and> videoRtcpSplitter (started mux_env None example_session) = 4
   \<and> closed_handles (calls_since example_session (started mux_env None example_session)) = [2]"
proof -
  have h: "start example_createCryptoLine mux_env None example_session
             = Some (Inr mux_description, started mux_env None example_session)"
    by (simp add: mux_env_def start_started_example)
  from rtcp_mux_aliasing [OF h] show ?thesis
    using h by (simp add: mux_description_def example_defs)
qed

subsection \<open>Failure of the invite\<close>

text \<open>
  Claim C6. The session is neither started nor ended, both ports are reserved, and the
  invite fails. If the error is the expired-ding sentinel and the camera returns updated
  options, \<open>start\<close> is \<open>start\<close> with the same ffmpeg options on the session in which:
  the updated options were requested for the ding of the session, the call object was
  destroyed and a new one constructed on the updated options, its end by the remote is
  subscribed to, \<open>hasStarted\<close> is false again, and \<open>hasCallEnded\<close> is untouched.
  If the error is any other, \<open>start\<close> returns that error, on a session that has ended
  through the teardown with a bye sent.
\<close>

theorem invite_failure_handling:
  assumes "\<not> hasStarted s" and "\<not> hasCallEnded s"
    and "env_reservePorts e (reservations s) = Inr vp"
    and "env_reservePorts e (Suc (reservations s)) = Inr ap"
    and "env_invite e (invitations s) = Inl err"
  shows "(err = expiredDingError \<and> env_getUpdatedSipOptions e (refreshes s) = Inr opts \<longrightarrow>
           start cc e ffo s =
             start cc e ffo
               (s\<lparr>hasStarted := False,
                  sipCall := sipCalls s, sipCalls := Suc (sipCalls s),
                  subscriptions := subscriptions s @ [(onEndedByRemote (sipCalls s), True)],
                  reservations := Suc (Suc (reservations s)),
                  invitations := Suc (invitations s),
                  refreshes := Suc (refreshes s),
                  trace := trace s @ map (Pair (now s))
                    [reservePorts 2, reservePorts 2, SipCall_invite (sipCall s),
                     getUpdatedSipOptions (dingId (sipOptions s)),
                     SipCall_destroy (sipCall s), SipCall_new (sipCalls s) opts]\<rparr>))
       \<and> (err \<noteq> expiredDingError \<longrightarrow>
           (\<exists>s1. start cc e ffo s = Some (Inl err, s1) \<and> hasCallEnded s1
              \<and> calls_since s s1 =
                  [reservePorts 2, reservePorts 2, SipCall_invite (sipCall s),
                   SipCall_sendBye (sipCall s), onCallEndedSubject_next]
                  @ replicate (onCallEndedObservers s) Ffmpeg_stop
                  @ [SipCall_destroy (sipCall s), Splitter_close (audioSplitter s),
                     Splitter_close (audioRtcpSplitter s), Splitter_close (videoSplitter s),
                     Splitter_close (videoRtcpSplitter s)]))"
proof (intro conjI impI)
  assume a: "err = expiredDingError \<and> env_getUpdatedSipOptions e (refreshes s) = Inr opts"
  show "start cc e ffo s =
             start cc e ffo
               (s\<lparr>hasStarted := False,
                  sipCall := sipCalls s, sipCalls := Suc (sipCalls s),
                  subscriptions := subscriptions s @ [(onEndedByRemote (sipCalls s), True)],
                  reservations := Suc (Suc (reservations s)),
                  invitations := Suc (invitations s),
                  refreshes := Suc (refreshes s),
                  trace := trace s @ map (Pair (now s))
                    [reservePorts 2, reservePorts 2, SipCall_invite (sipCall s),
                     getUpdatedSipOptions (dingId (sipOptions s)),
                     SipCall_destroy (sipCall s), SipCall_new (sipCalls s) opts]\<rparr>)"
  proof -
    let ?s3 = "s\<lparr>hasStarted := True, reservations := Suc (Suc (reservations s)),
                 invitations := Suc (invitations s),
                 trace := trace s @ map (Pair (now s))
                   [reservePorts 2, reservePorts 2, SipCall_invite (sipCall s)]\<rparr>"
    let ?s4 = "?s3\<lparr>refreshes := Suc (refreshes s),
                 trace := trace ?s3 @ [(now s, getUpdatedSipOptions (dingId (sipOptions s)))]\<rparr>"
    have r: "start cc e ffo s = start cc e ffo ((createSipCall opts ?s4)\<lparr>hasStarted := False\<rparr>)"
      using assms a
      by (subst start.simps)
         (simp add: start_try_eq camera_getUpdatedSipOptions_def emit_def)
    have "(createSipCall opts ?s4)\<lparr>hasStarted := False\<rparr> =
               s\<lparr>hasStarted := False,
                  sipCall := sipCalls s, sipCalls := Suc (sipCalls s),
                  subscriptions := subscriptions s @ [(onEndedByRemote (sipCalls s), True)],
                  reservations := Suc (Suc (reservations s)),
                  invitations := Suc (invitations s),
                  refreshes := Suc (refreshes s),
                  trace := trace s @ map (Pair (now s))
                    [reservePorts 2, reservePorts 2, SipCall_invite (sipCall s),
                     getUpdatedSipOptions (dingId (sipOptions s)),
                     SipCall_destroy (sipCall s), SipCall_new (sipCalls s) opts]\<rparr>"
      by (rule session.equality) (simp_all add: createSipCall_eq)
    with r show ?thesis by simp
  qed
next
  assume b: "err \<noteq> expiredDingError"
  let ?s3 = "s\<lparr>hasStarted := True, reservations := Suc (Suc (reservations s)),
                 invitations := Suc (invitations s),
                 trace := trace s @ map (Pair (now s))
                   [reservePorts 2, reservePorts 2, SipCall_invite (sipCall s)]\<rparr>"
  have r: "start cc e ffo s = Some (Inl err, callEnded True ?s3)"
    using assms b by (subst start.simps) (simp add: start_try_eq)
  have ne: "\<not> hasCallEnded ?s3"
    using assms by simp
  have "calls_since s (callEnded True ?s3) =
          [reservePorts 2, reservePorts 2, SipCall_invite (sipCall s),
           SipCall_sendBye (sipCall s), onCallEndedSubject_next]
          @ replicate (onCallEndedObservers s) Ffmpeg_stop
          @ [SipCall_destroy (sipCall s), Splitter_close (audioSplitter s),
             Splitter_close (audioRtcpSplitter s), Splitter_close (videoSplitter s),
             Splitter_close (videoRtcpSplitter s)]"
    using assms by (intro calls_since_append [where t = "now s"]) (simp add: callEnded_eq)
  with r hasCallEnded_callEnded [of True ?s3]
  show "\<exists>s1. start cc e ffo s = Some (Inl err, s1) \<and> hasCallEnded s1
              \<and> calls_since s s1 =
                  [reservePorts 2, reservePorts 2, SipCall_invite (sipCall s),
                   SipCall_sendBye (sipCall s), onCallEndedSubject_next]
                  @ replicate (onCallEndedObservers s) Ffmpeg_stop
                  @ [SipCall_destroy (sipCall s), Splitter_close (audioSplitter s),
                     Splitter_close (audioRtcpSplitter s), Splitter_close (videoSplitter s),
                     Splitter_close (videoRtcpSplitter s)]"
    by blast
qed

theorem invite_failure_handling_witness:
  "\<not> hasStarted example_session \<and> \<not> hasCallEnded example_session
   \<and> env_invite expired_once_env (invitations example_session) = Inl expiredDingError
   \<and> env_invite failing_env (invitations example_session) = Inl (OtherError 0)
   \<and> start example_createCryptoLine expired_once_env None example_session
       = start example_createCryptoLine expired_once_env None
           (example_session\<lparr>sipCall := 1, sipCalls := 2,
              subscriptions := [(onEndedByRemote 0, True), (onEndedByRemote 1, True)],
              reservations := 2, invitations := 1, refreshes := 1,
              trace := [(0, SipCall_new 0 example_options), (0, reservePorts 2),
                (0, reservePorts 2), (0, SipCall_invite 0), (0, getUpdatedSipOptions ''ding''),
                (0, SipCall_destroy 0), (0, SipCall_new 1 example_options)]\<rparr>)
   \<and> map_option fst (start example_createCryptoLine expired_once_env None example_session)
       = Some (Inr plain_description)
   \<and> map_option fst (start example_createCryptoLine failing_env None example_session)
       = Some (Inl (OtherError 0))"
proof -
  have h: "\<not> hasStarted example_session" "\<not> hasCallEnded example_session"
    by (simp_all add: example_defs)
  have p: "env_reservePorts expired_once_env (reservations example_session) = Inr 20000"
    "env_reservePorts expired_once_env (Suc (reservations example_session)) = Inr 20002"
    "env_reservePorts failing_env (reservations example_session) = Inr 20000"
    "env_reservePorts failing_env (Suc (reservations example_session)) = Inr 20002"
    by (simp_all add: example_defs expired_once_env_def failing_env_def example_env_def)
  have i: "env_invite expired_once_env (invitations example_session) = Inl expiredDingError"
    "env_invite failing_env (invitations example_session) = Inl (OtherError 0)"
    by (simp_all add: example_defs expired_once_env_def failing_env_def example_env_def)
  have o: "env_getUpdatedSipOptions expired_once_env (refreshes example_session)
             = Inr example_options"
    by (simp add: expired_once_env_def)
  have eq: "example_session\<lparr>hasStarted := False,
                  sipCall := sipCalls example_session,
                  sipCalls := Suc (sipCalls example_session),
                  subscriptions := subscriptions example_session
                    @ [(onEndedByRemote (sipCalls example_session), True)],
                  reservations := Suc (Suc (reservations example_session)),
                  invitations := Suc (invitations example_session),
                  refreshes := Suc (refreshes example_session),
                  trace := trace example_session @ map (Pair (now example_session))
                    [reservePorts 2, reservePorts 2, SipCall_invite (sipCall example_session),
                     getUpdatedSipOptions (dingId (sipOptions example_session)),
                     SipCall_destroy (sipCall example_session),
                     SipCall_new (sipCalls example_session) example_options]\<rparr>
            = example_session\<lparr>sipCall := 1, sipCalls := 2,
              subscriptions := [(onEndedByRemote 0, True), (onEndedByRemote 1, True)],
              reservations := 2, invitations := 1, refreshes := 1,
              trace := [(0, SipCall_new 0 example_options), (0, reservePorts 2),
                (0, reservePorts 2), (0, SipCall_invite 0), (0, getUpdatedSipOptions ''ding''),
                (0, SipCall_destroy 0), (0, SipCall_new 1 example_options)]\<rparr>"
    by (rule session.equality) (simp_all add: example_defs)
  note A = invite_failure_handling [OF h p(1,2) i(1), of example_options
    example_createCryptoLine None]
  note B = invite_failure_handling [OF h p(3,4) i(2), of example_options
    example_createCryptoLine None]
  have a: "start example_createCryptoLine expired_once_env None example_session
       = start example_createCryptoLine expired_once_env None
           (example_session\<lparr>sipCall := 1, sipCalls := 2,
              subscriptions := [(onEndedByRemote 0, True), (onEndedByRemote 1, True)],
              reservations := 2, invitations := 1, refreshes := 1,
              trace := [(0, SipCall_new 0 example_options), (0, reservePorts 2),
                (0, reservePorts 2), (0, SipCall_invite 0), (0, getUpdatedSipOptions ''ding''),
                (0, SipCall_destroy 0), (0, SipCall_new 1 example_options)]\<rparr>)"
    using A o unfolding eq by blast
  have b: "map_option fst (start example_createCryptoLine failing_env None example_session)
       = Some (Inl (OtherError 0))"
    using B by auto
  have c: "map_option fst (start example_createCryptoLine expired_once_env None example_session)
       = Some (Inr plain_description)"
    unfolding a
    by (subst start_invited [where vp = 20004 and ap = 20006 and d = plain_description])
       (simp_all add: example_session_simps expired_once_env_def)
  from h i a b c show ?thesis by blast
qed

subsection \<open>The description written to ffmpeg, in closed form\<close>

lemma start_try_ports:
  assumes "start_try cc e ffo s = (Inr d, s1)"
  shows "\<exists>ap vp s'. signaling_only s s' \<and> s1 = start_negotiated cc ffo d ap vp s'
           \<and> env_reservePorts e (reservations s' - 2) = Inr vp
           \<and> env_reservePorts e (reservations s' - 1) = Inr ap"
proof -
  from assms obtain vp where vp: "env_reservePorts e (reservations s) = Inr vp"
    by (cases "env_reservePorts e (reservations s)") (simp_all add: start_try_eq)
  from assms vp obtain ap where ap: "env_reservePorts e (Suc (reservations s)) = Inr ap"
    by (cases "env_reservePorts e (Suc (reservations s))") (simp_all add: start_try_eq)
  from assms vp ap have i: "env_invite e (invitations s) = Inr d"
    by (cases "env_invite e (invitations s)") (simp_all add: start_try_eq)
  let ?s' = "s\<lparr>reservations := Suc (Suc (reservations s)),
                 invitations := Suc (invitations s),
                 trace := trace s @ map (Pair (now s))
                   [reservePorts 2, reservePorts 2, SipCall_invite (sipCall s)]\<rparr>"
  have 1: "s1 = start_negotiated cc ffo d ap vp ?s'"
    using assms vp ap i by (simp add: start_try_eq)
  have 2: "signaling_only s ?s'"
    by (simp add: signaling_only_def wiring_calls_def)
  have 3: "env_reservePorts e (reservations ?s' - 2) = Inr vp"
    "env_reservePorts e (reservations ?s' - 1) = Inr ap"
    using vp ap by simp_all
  from 1 2 3 show ?thesis by blast
qed

lemma start_success_ports:
  assumes "start cc e ffo s = Some (Inr d, s1)"
  shows "\<exists>s' ap vp. signaling_only s s' \<and> s1 = start_negotiated cc ffo d ap vp s'
           \<and> env_reservePorts e (reservations s' - 2) = Inr vp
           \<and> env_reservePorts e (reservations s' - 1) = Inr ap"
proof -
  define P where "P = (\<lambda>(cc :: srtp_options \<Rightarrow> string) (e :: env)
      (ffo :: FfmpegOptions option) s (y :: (error + RtpDescription) \<times> session).
        \<forall>d s1. y = (Inr d, s1) \<longrightarrow>
          (\<exists>s' ap vp. signaling_only s s' \<and> s1 = start_negotiated cc ffo d ap vp s'
             \<and> env_reservePorts e (reservations s' - 2) = Inr vp
             \<and> env_reservePorts e (reservations s' - 1) = Inr ap))"
  have "P cc e ffo s (Inr d, s1)"
  proof (rule start.raw_induct [where P = P, rotated, OF assms], goal_cases)
    case (1 start' cc e ffo s y)
    note IH = 1(1) [unfolded P_def, rule_format] and body = 1(2)
    show ?case
      unfolding P_def
    proof (intro allI impI)
      fix d s1
      assume y: "y = (Inr d, s1)"
      let ?s0 = "s\<lparr>hasStarted := True\<rparr>"
      from body y have ns: "\<not> hasStarted s" and ne: "\<not> hasCallEnded s"
        by (auto split: if_splits)
      obtain r st where t: "start_try cc e ffo ?s0 = (r, st)"
        by (cases "start_try cc e ffo ?s0")
      have s0: "signaling_only s ?s0"
        by (rule signaling_only_hasStarted)
      show "\<exists>s' ap vp. signaling_only s s' \<and> s1 = start_negotiated cc ffo d ap vp s'
             \<and> env_reservePorts e (reservations s' - 2) = Inr vp
             \<and> env_reservePorts e (reservations s' - 1) = Inr ap"
      proof (cases r)
        case (Inr d')
        from body y ns ne t Inr have "d' = d" "st = s1"
          by auto
        with t Inr have "start_try cc e ffo ?s0 = (Inr d, s1)"
          by simp
        from start_try_ports [OF this] obtain ap vp s' where
          "signaling_only ?s0 s'" "s1 = start_negotiated cc ffo d ap vp s'"
          "env_reservePorts e (reservations s' - 2) = Inr vp"
          "env_reservePorts e (reservations s' - 1) = Inr ap"
          by blast
        moreover from this(1) s0 have "signaling_only s s'"
          by (blast intro: signaling_only_trans)
        ultimately show ?thesis by blast
      next
        case (Inl err)
        from start_try_cases [OF t] Inl have so: "signaling_only ?s0 st"
          by auto
        obtain r2 s2 where g: "camera_getUpdatedSipOptions e (dingId (sipOptions st)) st = (r2, s2)"
          by (cases "camera_getUpdatedSipOptions e (dingId (sipOptions st)) st")
        from body y ns ne t Inl g obtain opts where
          rec: "start' cc e ffo ((createSipCall opts s2)\<lparr>hasStarted := False\<rparr>) = Some (Inr d, s1)"
          by (auto split: if_splits sum.splits)
        let ?sr = "(createSipCall opts s2)\<lparr>hasStarted := False\<rparr>"
        from IH [OF rec refl] obtain s' ap vp where
          ih: "signaling_only ?sr s'" "s1 = start_negotiated cc ffo d ap vp s'"
              "env_reservePorts e (reservations s' - 2) = Inr vp"
              "env_reservePorts e (reservations s' - 1) = Inr ap"
          by blast
        have "signaling_only st s2"
          using signaling_only_refresh [of st e "dingId (sipOptions st)"] g by simp
        then have "signaling_only st ?sr"
          by (blast intro: signaling_only_trans signaling_only_createSipCall
              signaling_only_hasStarted)
        with s0 so ih(1) have "signaling_only s s'"
          by (blast intro: signaling_only_trans)
        with ih show ?thesis by blast
      qed
    qed
  qed
  then show ?thesis by (simp add: P_def)
qed

lemma stdin_writes_append: "stdin_writes (xs @ ys) = stdin_writes xs @ stdin_writes ys"
  by (simp add: stdin_writes_def)

lemma stdin_writes_signaling: "wiring_calls cs = [] \<Longrightarrow> stdin_writes cs = []"
proof (induction cs)
  case Nil
  show ?case by (simp add: stdin_writes_def)
next
  case (Cons c cs)
  then show ?case
    by (cases c) (simp_all add: stdin_writes_def wiring_calls_def split: if_splits)
qed

lemma stdin_writes_negotiated:
  "stdin_writes (negotiated_calls cc ffo d ap vp s) =
     (case ffo of None \<Rightarrow> [] | Some ff \<Rightarrow> [sdp_document cc ff d ap vp])"
  by (cases ffo)
     (auto simp: stdin_writes_def negotiated_calls_def transcoder_calls_def mux_calls_def
      stun_round_def)

lemma start_success_written:
  assumes "start cc e ffo s = Some (Inr d, s1)"
  shows "\<exists>ap vp. env_reservePorts e (reservations s1 - 2) = Inr vp
           \<and> env_reservePorts e (reservations s1 - 1) = Inr ap
           \<and> stdin_writes (calls_since s s1)
               = (case ffo of None \<Rightarrow> [] | Some ff \<Rightarrow> [sdp_document cc ff d ap vp])"
proof -
  from start_success_ports [OF assms] obtain s' ap vp where
    so: "signaling_only s s'" and s1: "s1 = start_negotiated cc ffo d ap vp s'"
    and vp: "env_reservePorts e (reservations s' - 2) = Inr vp"
    and ap: "env_reservePorts e (reservations s' - 1) = Inr ap"
    by blast
  from so obtain p where p: "trace s' = trace s @ p" "wiring_calls (map snd p) = []"
    by (auto simp: signaling_only_def)
  have "trace s1 = trace s @ p @ map (Pair (now s')) (negotiated_calls cc ffo d ap vp s')"
    by (simp add: s1 start_negotiated_eq p)
  then have "calls_since s s1 = map snd p @ negotiated_calls cc ffo d ap vp s'"
    by (simp add: calls_since_def comp_def)
  then have w: "stdin_writes (calls_since s s1)
               = (case ffo of None \<Rightarrow> [] | Some ff \<Rightarrow> [sdp_document cc ff d ap vp])"
    by (simp add: stdin_writes_append stdin_writes_signaling [OF p(2)] stdin_writes_negotiated)
  have "reservations s1 = reservations s'"
    by (simp add: s1 start_negotiated_eq)
  with vp ap w show ?thesis by auto
qed

lemma split_lines_line:
  "CHR 0x0A \<notin> set l \<Longrightarrow> split_lines l = [l]"
  by (induction l) (auto split: list.splits)

lemma split_lines_first:
  "CHR 0x0A \<notin> set l \<Longrightarrow> split_lines (l @ CHR 0x0A # rest) = l # split_lines rest"
  by (induction l) (auto split: list.splits)

lemma split_lines_join:
  assumes "ls \<noteq> []" and "\<forall>l \<in> set ls. CHR 0x0A \<notin> set l"
  shows "split_lines (join_lines ls) = ls"
  using assms
proof (induction ls rule: join_lines.induct)
  case 1
  then show ?case by simp
next
  case (2 x)
  then show ?case by (simp add: split_lines_line)
next
  case (3 x y ys)
  then show ?case by (simp add: split_lines_first)
qed

lemma digit_no_newline: "d < 10 \<Longrightarrow> CHR 0x0A \<noteq> digit d"
proof -
  assume "d < 10"
  then have "''0123456789'' ! d \<in> set ''0123456789''"
    by (intro nth_mem) simp
  then show ?thesis
    unfolding digit_def by auto
qed

lemma show_nat_no_newline: "CHR 0x0A \<notin> set (show_nat n)"
proof (induction n rule: show_nat.induct)
  case (1 n)
  show ?case
  proof (cases "n < 10")
    case True
    then show ?thesis
      by (subst show_nat.simps) (simp add: digit_no_newline)
  next
    case False
    have "n mod 10 < 10" by simp
    with False 1 show ?thesis
      by (subst show_nat.simps) (simp add: digit_no_newline)
  qed
qed

lemma sdp_document_chars:
  "sdp_document cc ff d audioPort videoPort =
       ''v=0'' @ [CHR 0x0A]
       @ ''o=105202070 3747 461 IN IP4 127.0.0.1'' @ [CHR 0x0A]
       @ ''s=Talk'' @ [CHR 0x0A]
       @ ''c=IN IP4 127.0.0.1'' @ [CHR 0x0A]
       @ ''b=AS:380'' @ [CHR 0x0A]
       @ ''t=0 0'' @ [CHR 0x0A]
       @ ''a=rtcp-xr:rcvr-rtt=all:10000 stat-summary=loss,dup,jitt,TTL voip-metrics''
       @ [CHR 0x0A]
       @ ''m=audio '' @ show_nat audioPort @ '' RTP/SAVP 0 101'' @ [CHR 0x0A]
       @ ''a=rtpmap:0 PCMU/8000'' @ [CHR 0x0A]
       @ (if cc (srtp (rd_audio d)) = [] then [] else cc (srtp (rd_audio d)) @ [CHR 0x0A])
       @ ''a=rtcp:'' @ show_nat (audioPort + 1) @ '' IN IP4 127.0.0.1''
       @ (if ff_video ff = VideoFalse then []
          else [CHR 0x0A]
            @ ''m=video '' @ show_nat videoPort @ '' RTP/SAVP 99'' @ [CHR 0x0A]
            @ ''a=rtpmap:99 H264/90000'' @ [CHR 0x0A]
            @ (if cc (srtp (rd_video d)) = [] then []
               else cc (srtp (rd_video d)) @ [CHR 0x0A])
            @ ''a=rtcp:'' @ show_nat (videoPort + 1) @ '' IN IP4 127.0.0.1'')"
  by (simp add: sdp_document_def inputSdpLines_def truthy_def transcodeVideoStream_def)

lemma sdp_lines_eq:
  "filter truthy (inputSdpLines cc ff d audioPort videoPort) =
       [''v=0'',
        ''o=105202070 3747 461 IN IP4 127.0.0.1'',
        ''s=Talk'',
        ''c=IN IP4 127.0.0.1'',
        ''b=AS:380'',
        ''t=0 0'',
        ''a=rtcp-xr:rcvr-rtt=all:10000 stat-summary=loss,dup,jitt,TTL voip-metrics'',
        ''m=audio '' @ show_nat audioPort @ '' RTP/SAVP 0 101'',
        ''a=rtpmap:0 PCMU/8000'']
       @ filter truthy [cc (srtp (rd_audio d))]
       @ [''a=rtcp:'' @ show_nat (audioPort + 1) @ '' IN IP4 127.0.0.1'']
       @ (if ff_video ff = VideoFalse then []
          else [''m=video '' @ show_nat videoPort @ '' RTP/SAVP 99'',
                ''a=rtpmap:99 H264/90000'']
               @ filter truthy [cc (srtp (rd_video d))]
               @ [''a=rtcp:'' @ show_nat (videoPort + 1) @ '' IN IP4 127.0.0.1''])"
  by (simp add: inputSdpLines_def truthy_def transcodeVideoStream_def)

lemma sdp_document_lines:
  assumes "CHR 0x0A \<notin> set (cc (srtp (rd_audio d)))"
    and "ff_video ff = VideoFalse \<or> CHR 0x0A \<notin> set (cc (srtp (rd_video d)))"
  shows "split_lines (sdp_document cc ff d audioPort videoPort)
           = filter truthy (inputSdpLines cc ff d audioPort videoPort)"
  unfolding sdp_document_def
proof (rule split_lines_join)
  show "filter truthy (inputSdpLines cc ff d audioPort videoPort) \<noteq> []"
    by (simp add: inputSdpLines_def truthy_def)
  show "\<forall>l \<in> set (filter truthy (inputSdpLines cc ff d audioPort videoPort)).
          CHR 0x0A \<notin> set l"
    using assms
    by (auto simp: inputSdpLines_def transcodeVideoStream_def show_nat_no_newline)
qed

subsection \<open>The session description\<close>

text \<open>
  Claim C7. \<open>start\<close> is called with ffmpeg options and returns a description. During
  \<open>start\<close> exactly one text is written to the standard input of the process: the session
  description on the audio port and the video port, the ports answered by the last two
  reservations made before \<open>start\<close> returned (video first, audio second).

  Character by character, that text is the seven lines of the preamble, the audio media
  line on the audio port with payload types 0 and 101, the PCMU/8000 rtpmap, the audio
  crypto line, and the rtcp attribute on the audio port plus one, with one newline
  between two lines; then, if and only if the video option is not \<open>false\<close>, a newline and
  the video media line on the video port with payload type 99, the H264/90000 rtpmap, the
  video crypto line, and the rtcp attribute on the video port plus one. A crypto line that
  is empty is left out together with its newline. With the video option \<open>false\<close> the text
  depends neither on the video description nor on the video port.

  The crypto lines come from \<open>createCryptoLine\<close>, a library function. When they contain no
  newline, the text split at its newlines is exactly that list of lines and none of them
  is empty; when moreover they are not media lines, the media lines of the text are the
  audio one alone with the video option \<open>false\<close>, and the audio one then the video one
  otherwise.
\<close>

theorem sdp_document_contents:
  assumes "start cc e (Some ff) s = Some (Inr d, s1)"
  shows "\<exists>audioPort videoPort.
      env_reservePorts e (reservations s1 - 2) = Inr videoPort
    \<and> env_reservePorts e (reservations s1 - 1) = Inr audioPort
    \<and> stdin_writes (calls_since s s1) = [sdp_document cc ff d audioPort videoPort]
    \<and> sdp_document cc ff d audioPort videoPort =
       ''v=0'' @ [CHR 0x0A]
       @ ''o=105202070 3747 461 IN IP4 127.0.0.1'' @ [CHR 0x0A]
       @ ''s=Talk'' @ [CHR 0x0A]
       @ ''c=IN IP4 127.0.0.1'' @ [CHR 0x0A]
       @ ''b=AS:380'' @ [CHR 0x0A]
       @ ''t=0 0'' @ [CHR 0x0A]
       @ ''a=rtcp-xr:rcvr-rtt=all:10000 stat-summary=loss,dup,jitt,TTL voip-metrics''
       @ [CHR 0x0A]
       @ ''m=audio '' @ show_nat audioPort @ '' RTP/SAVP 0 101'' @ [CHR 0x0A]
       @ ''a=rtpmap:0 PCMU/8000'' @ [CHR 0x0A]
       @ (if cc (srtp (rd_audio d)) = [] then [] else cc (srtp (rd_audio d)) @ [CHR 0x0A])
       @ ''a=rtcp:'' @ show_nat (audioPort + 1) @ '' IN IP4 127.0.0.1''
       @ (if ff_video ff = VideoFalse then []
          else [CHR 0x0A]
            @ ''m=video '' @ show_nat videoPort @ '' RTP/SAVP 99'' @ [CHR 0x0A]
            @ ''a=rtpmap:99 H264/90000'' @ [CHR 0x0A]
            @ (if cc (srtp (rd_video d)) = [] then []
               else cc (srtp (rd_video d)) @ [CHR 0x0A])
            @ ''a=rtcp:'' @ show_nat (videoPort + 1) @ '' IN IP4 127.0.0.1'')
    \<and> (ff_video ff = VideoFalse \<longrightarrow>
        (\<forall>v p. sdp_document cc ff (d\<lparr>rd_video := v\<rparr>) audioPort p
                 = sdp_document cc ff d audioPort videoPort))
    \<and> (CHR 0x0A \<notin> set (cc (srtp (rd_audio d)))
        \<and> (ff_video ff = VideoFalse \<or> CHR 0x0A \<notin> set (cc (srtp (rd_video d)))) \<longrightarrow>
          split_lines (sdp_document cc ff d audioPort videoPort) =
            [''v=0'',
             ''o=105202070 3747 461 IN IP4 127.0.0.1'',
             ''s=Talk'',
             ''c=IN IP4 127.0.0.1'',
             ''b=AS:380'',
             ''t=0 0'',
             ''a=rtcp-xr:rcvr-rtt=all:10000 stat-summary=loss,dup,jitt,TTL voip-metrics'',
             ''m=audio '' @ show_nat audioPort @ '' RTP/SAVP 0 101'',
             ''a=rtpmap:0 PCMU/8000'']
            @ filter truthy [cc (srtp (rd_audio d))]
            @ [''a=rtcp:'' @ show_nat (audioPort + 1) @ '' IN IP4 127.0.0.1'']
            @ (if ff_video ff = VideoFalse then []
               else [''m=video '' @ show_nat videoPort @ '' RTP/SAVP 99'',
                     ''a=rtpmap:99 H264/90000'']
                    @ filter truthy [cc (srtp (rd_video d))]
                    @ [''a=rtcp:'' @ show_nat (videoPort + 1) @ '' IN IP4 127.0.0.1''])
        \<and> [] \<notin> set (split_lines (sdp_document cc ff d audioPort videoPort))
        \<and> (\<not> is_media_line (cc (srtp (rd_audio d)))
            \<and> (ff_video ff = VideoFalse \<or> \<not> is_media_line (cc (srtp (rd_video d)))) \<longrightarrow>
              filter is_media_line (split_lines (sdp_document cc ff d audioPort videoPort)) =
                (''m=audio '' @ show_nat audioPort @ '' RTP/SAVP 0 101'')
                # (if ff_video ff = VideoFalse then []
                   else [''m=video '' @ show_nat videoPort @ '' RTP/SAVP 99''])))"
proof -
  from start_success_written [OF assms] obtain ap vp where
    vp: "env_reservePorts e (reservations s1 - 2) = Inr vp"
    and ap: "env_reservePorts e (reservations s1 - 1) = Inr ap"
    and w: "stdin_writes (calls_since s s1) = [sdp_document cc ff d ap vp]"
    by auto
  note chars = sdp_document_chars [of cc ff d ap vp]
  have indep: "ff_video ff = VideoFalse \<longrightarrow>
        (\<forall>v p. sdp_document cc ff (d\<lparr>rd_video := v\<rparr>) ap p = sdp_document cc ff d ap vp)"
    by (simp add: sdp_document_def inputSdpLines_def transcodeVideoStream_def)
  have lines: "split_lines (sdp_document cc ff d ap vp)
                 = filter truthy (inputSdpLines cc ff d ap vp)"
    if "CHR 0x0A \<notin> set (cc (srtp (rd_audio d)))
        \<and> (ff_video ff = VideoFalse \<or> CHR 0x0A \<notin> set (cc (srtp (rd_video d))))"
    using that by (intro sdp_document_lines) blast+
  have noblank: "[] \<notin> set (filter truthy (inputSdpLines cc ff d ap vp))"
    by (simp add: truthy_def)
  have media: "filter is_media_line (filter truthy (inputSdpLines cc ff d ap vp)) =
                (''m=audio '' @ show_nat ap @ '' RTP/SAVP 0 101'')
                # (if ff_video ff = VideoFalse then []
                   else [''m=video '' @ show_nat vp @ '' RTP/SAVP 99''])"
    if "\<not> is_media_line (cc (srtp (rd_audio d)))
        \<and> (ff_video ff = VideoFalse \<or> \<not> is_media_line (cc (srtp (rd_video d))))"
    using that
    by (auto simp: inputSdpLines_def transcodeVideoStream_def truthy_def is_media_line_def)
  have L: "CHR 0x0A \<notin> set (cc (srtp (rd_audio d)))
        \<and> (ff_video ff = VideoFalse \<or> CHR 0x0A \<notin> set (cc (srtp (rd_video d)))) \<longrightarrow>
          split_lines (sdp_document cc ff d ap vp) =
            [''v=0'',
             ''o=105202070 3747 461 IN IP4 127.0.0.1'',
             ''s=Talk'',
             ''c=IN IP4 127.0.0.1'',
             ''b=AS:380'',
             ''t=0 0'',
             ''a=rtcp-xr:rcvr-rtt=all:10000 stat-summary=loss,dup,jitt,TTL voip-metrics'',
             ''m=audio '' @ show_nat ap @ '' RTP/SAVP 0 101'',
             ''a=rtpmap:0 PCMU/8000'']
            @ filter truthy [cc (srtp (rd_audio d))]
            @ [''a=rtcp:'' @ show_nat (ap + 1) @ '' IN IP4 127.0.0.1'']
            @ (if ff_video ff = VideoFalse then []
               else [''m=video '' @ show_nat vp @ '' RTP/SAVP 99'',
                     ''a=rtpmap:99 H264/90000'']
                    @ filter truthy [cc (srtp (rd_video d))]
                    @ [''a=rtcp:'' @ show_nat (vp + 1) @ '' IN IP4 127.0.0.1''])
        \<and> [] \<notin> set (split_lines (sdp_document cc ff d ap vp))
        \<and> (\<not> is_media_line (cc (srtp (rd_audio d)))
            \<and> (ff_video ff = VideoFalse \<or> \<not> is_media_line (cc (srtp (rd_video d)))) \<longrightarrow>
              filter is_media_line (split_lines (sdp_document cc ff d ap vp)) =
                (''m=audio '' @ show_nat ap @ '' RTP/SAVP 0 101'')
                # (if ff_video ff = VideoFalse then []
                   else [''m=video '' @ show_nat vp @ '' RTP/SAVP 99'']))"
  proof (intro impI conjI)
    assume a: "CHR 0x0A \<notin> set (cc (srtp (rd_audio d)))
        \<and> (ff_video ff = VideoFalse \<or> CHR 0x0A \<notin> set (cc (srtp (rd_video d))))"
    note l = lines [OF a]
    show "split_lines (sdp_document cc ff d ap vp) =
            [''v=0'',
             ''o=105202070 3747 461 IN IP4 127.0.0.1'',
             ''s=Talk'',
             ''c=IN IP4 127.0.0.1'',
             ''b=AS:380'',
             ''t=0 0'',
             ''a=rtcp-xr:rcvr-rtt=all:10000 stat-summary=loss,dup,jitt,TTL voip-metrics'',
             ''m=audio '' @ show_nat ap @ '' RTP/SAVP 0 101'',
             ''a=rtpmap:0 PCMU/8000'']
            @ filter truthy [cc (srtp (rd_audio d))]
            @ [''a=rtcp:'' @ show_nat (ap + 1) @ '' IN IP4 127.0.0.1'']
            @ (if ff_video ff = VideoFalse then []
               else [''m=video '' @ show_nat vp @ '' RTP/SAVP 99'',
                     ''a=rtpmap:99 H264/90000'']
                    @ filter truthy [cc (srtp (rd_video d))]
                    @ [''a=rtcp:'' @ show_nat (vp + 1) @ '' IN IP4 127.0.0.1''])"
      unfolding l by (rule sdp_lines_eq)
    show "[] \<notin> set (split_lines (sdp_document cc ff d ap vp))"
      unfolding l by (rule noblank)
    show "filter is_media_line (split_lines (sdp_document cc ff d ap vp)) =
                (''m=audio '' @ show_nat ap @ '' RTP/SAVP 0 101'')
                # (if ff_video ff = VideoFalse then []
                   else [''m=video '' @ show_nat vp @ '' RTP/SAVP 99''])"
      if "\<not> is_media_line (cc (srtp (rd_audio d)))
            \<and> (ff_video ff = VideoFalse \<or> \<not> is_media_line (cc (srtp (rd_video d))))"
      unfolding l using that by (rule media)
  qed
  show ?thesis
  proof (rule exI [where x = ap], rule exI [where x = vp], intro conjI)
    show "env_reservePorts e (reservations s1 - 2) = Inr vp"
      by (rule vp)
    show "env_reservePorts e (reservations s1 - 1) = Inr ap"
      by (rule ap)
    show "stdin_writes (calls_since s s1) = [sdp_document cc ff d ap vp]"
      by (rule w)
  qed (rule chars indep L)+
qed

theorem sdp_document_contents_witness:
  "start example_createCryptoLine plain_env (Some audio_only_ffmpegOptions) example_session
     = Some (Inr plain_description,
         started plain_env (Some audio_only_ffmpegOptions) example_session)
   \<and> ff_video audio_only_ffmpegOptions = VideoFalse
   \<and> CHR 0x0A \<notin> set (example_createCryptoLine (srtp (rd_audio plain_description)))
   \<and> \<not> is_media_line (example_createCryptoLine (srtp (rd_audio plain_description)))
   \<and> stdin_writes (calls_since example_session
         (started plain_env (Some audio_only_ffmpegOptions) example_session))
       = [sdp_document example_createCryptoLine audio_only_ffmpegOptions plain_description
            20002 20000]
   \<and> sdp_document example_createCryptoLine audio_only_ffmpegOptions plain_description
         20002 20000
       = ''v=0'' @ [CHR 0x0A]
         @ ''o=105202070 3747 461 IN IP4 127.0.0.1'' @ [CHR 0x0A]
         @ ''s=Talk'' @ [CHR 0x0A]
         @ ''c=IN IP4 127.0.0.1'' @ [CHR 0x0A]
         @ ''b=AS:380'' @ [CHR 0x0A]
         @ ''t=0 0'' @ [CHR 0x0A]
         @ ''a=rtcp-xr:rcvr-rtt=all:10000 stat-summary=loss,dup,jitt,TTL voip-metrics''
         @ [CHR 0x0A]
         @ ''m=audio 20002 RTP/SAVP 0 101'' @ [CHR 0x0A]
         @ ''a=rtpmap:0 PCMU/8000'' @ [CHR 0x0A]
         @ ''a=crypto:1 AES_CM_128_HMAC_SHA1_80 inline:key'' @ [CHR 0x0A]
         @ ''a=rtcp:20003 IN IP4 127.0.0.1''
   \<and> split_lines (sdp_document example_createCryptoLine audio_only_ffmpegOptions
         plain_description 20002 20000)
       = [''v=0'',
          ''o=105202070 3747 461 IN IP4 127.0.0.1'',
          ''s=Talk'',
          ''c=IN IP4 127.0.0.1'',
          ''b=AS:380'',
          ''t=0 0'',
          ''a=rtcp-xr:rcvr-rtt=all:10000 stat-summary=loss,dup,jitt,TTL voip-metrics'',
          ''m=audio 20002 RTP/SAVP 0 101'',
          ''a=rtpmap:0 PCMU/8000'',
          ''a=crypto:1 AES_CM_128_HMAC_SHA1_80 inline:key'',
          ''a=rtcp:20003 IN IP4 127.0.0.1'']
   \<and> filter is_media_line (split_lines (sdp_document example_createCryptoLine
         audio_only_ffmpegOptions plain_description 20002 20000))
       = [''m=audio 20002 RTP/SAVP 0 101'']"
proof -
  let ?S = "started plain_env (Some audio_only_ffmpegOptions) example_session"
  let ?c = "example_createCryptoLine (srtp (rd_audio plain_description))"
  have h: "start example_createCryptoLine plain_env (Some audio_only_ffmpegOptions)
             example_session = Some (Inr plain_description, ?S)"
    by (simp add: plain_env_def start_started_example)
  have v: "ff_video audio_only_ffmpegOptions = VideoFalse"
    by (simp add: audio_only_ffmpegOptions_def)
  have c: "?c = ''a=crypto:1 AES_CM_128_HMAC_SHA1_80 inline:key''"
    by (simp add: example_createCryptoLine_def)
  have n: "CHR 0x0A \<notin> set ?c" and m: "\<not> is_media_line ?c"
    by (simp_all add: c is_media_line_def)
  have r: "reservations ?S = 2"
    by (simp add: plain_env_def started_example start_negotiated_eq example_session_simps)
  have p: "env_reservePorts plain_env 0 = Inr 20000" "env_reservePorts plain_env 1 = Inr 20002"
    by (simp_all add: plain_env_def example_env_def)
  have sn: "show_nat 20002 = ''20002''" "show_nat 20003 = ''20003''"
    by (simp_all add: show_nat.simps digit_def)
  from sdp_document_contents [OF h] obtain ap vp where
    T: "env_reservePorts plain_env (reservations ?S - 2) = Inr vp"
       "env_reservePorts plain_env (reservations ?S - 1) = Inr ap"
       "stdin_writes (calls_since example_session ?S)
          = [sdp_document example_createCryptoLine audio_only_ffmpegOptions plain_description
               ap vp]"
       "ff_video audio_only_ffmpegOptions = VideoFalse \<longrightarrow>
        (\<forall>v p. sdp_document example_createCryptoLine audio_only_ffmpegOptions
                  (plain_description\<lparr>rd_video := v\<rparr>) ap p
                 = sdp_document example_createCryptoLine audio_only_ffmpegOptions
                     plain_description ap vp)"
    by blast
  have ports: "vp = 20000" "ap = 20002"
    using T(1,2) p by (simp_all add: r)
  note w = T(3) [unfolded ports]
  have chars: "sdp_document example_createCryptoLine audio_only_ffmpegOptions plain_description
         20002 20000
       = ''v=0'' @ [CHR 0x0A]
         @ ''o=105202070 3747 461 IN IP4 127.0.0.1'' @ [CHR 0x0A]
         @ ''s=Talk'' @ [CHR 0x0A]
         @ ''c=IN IP4 127.0.0.1'' @ [CHR 0x0A]
         @ ''b=AS:380'' @ [CHR 0x0A]
         @ ''t=0 0'' @ [CHR 0x0A]
         @ ''a=rtcp-xr:rcvr-rtt=all:10000 stat-summary=loss,dup,jitt,TTL voip-metrics''
         @ [CHR 0x0A]
         @ ''m=audio 20002 RTP/SAVP 0 101'' @ [CHR 0x0A]
         @ ''a=rtpmap:0 PCMU/8000'' @ [CHR 0x0A]
         @ ''a=crypto:1 AES_CM_128_HMAC_SHA1_80 inline:key'' @ [CHR 0x0A]
         @ ''a=rtcp:20003 IN IP4 127.0.0.1''"
    by (subst sdp_document_chars) (simp add: v c sn)
  have lines: "split_lines (sdp_document example_createCryptoLine audio_only_ffmpegOptions
         plain_description 20002 20000)
       = [''v=0'',
          ''o=105202070 3747 461 IN IP4 127.0.0.1'',
          ''s=Talk'',
          ''c=IN IP4 127.0.0.1'',
          ''b=AS:380'',
          ''t=0 0'',
          ''a=rtcp-xr:rcvr-rtt=all:10000 stat-summary=loss,dup,jitt,TTL voip-metrics'',
          ''m=audio 20002 RTP/SAVP 0 101'',
          ''a=rtpmap:0 PCMU/8000'',
          ''a=crypto:1 AES_CM_128_HMAC_SHA1_80 inline:key'',
          ''a=rtcp:20003 IN IP4 127.0.0.1'']"
    using n v
    by (subst sdp_document_lines) (simp_all add: sdp_lines_eq c sn truthy_def)
  have media: "filter is_media_line (split_lines (sdp_document example_createCryptoLine
         audio_only_ffmpegOptions plain_description 20002 20000))
       = [''m=audio 20002 RTP/SAVP 0 101'']"
    unfolding lines by (simp add: is_media_line_def)
  from h v n m w chars lines media show ?thesis by blast
qed

subsection \<open>Forwarding packets to ffmpeg\<close>

text \<open>
  Claim C8. During a \<open>start\<close> that returned a description: without ffmpeg options no
  message handler is registered; with ffmpeg options the handlers registered are, in this
  order, one on the video RTP splitter to the video port and one on the video RTCP
  splitter to the video port plus one, these two only when the video is transcoded, then
  one on the audio RTP splitter to the audio port and one on the audio RTCP splitter to
  the audio port plus one, where the two ports are those of the session description
  written to the process. Every such handler returns no target for a message that
  \<open>isStunMessage\<close> recognises and its port for every other message.
\<close>

theorem transcoder_forwarding:
  assumes "start cc e ffo s = Some (Inr d, s1)"
  shows "(ffo = None \<longrightarrow> handlers_added (calls_since s s1) = [])
    \<and> (\<forall>ff. ffo = Some ff \<longrightarrow>
         (\<exists>audioPort videoPort.
            handlers_added (calls_since s s1) =
              (if transcodeVideoStream ff
               then [(videoSplitter s, ForwardToFfmpeg videoPort),
                     (videoRtcpSplitter s, ForwardToFfmpeg (videoPort + 1))]
               else [])
              @ [(audioSplitter s, ForwardToFfmpeg audioPort),
                 (audioRtcpSplitter s, ForwardToFfmpeg (audioPort + 1))]
            \<and> Ffmpeg_writeStdin (sdp_document cc ff d audioPort videoPort)
                  \<in> set (calls_since s s1)))
    \<and> (\<forall>p message. run_handler isStunMessage (ForwardToFfmpeg p) message
          = (if isStunMessage message then None else Some p))"
proof -
  from start_success_calls [OF assms] obtain ap vp pre where
    c: "calls_since s s1 = pre @ negotiated_calls cc ffo d ap vp (s\<lparr>sipCall := sipCall s1\<rparr>)"
    and pre: "wiring_calls pre = []"
    by blast
  have h: "handlers_added (calls_since s s1) =
     (case ffo of
        None \<Rightarrow> []
      | Some ff \<Rightarrow>
          (if transcodeVideoStream ff
           then [(videoSplitter s, ForwardToFfmpeg vp),
                 (videoRtcpSplitter s, ForwardToFfmpeg (vp + 1))]
           else [])
          @ [(audioSplitter s, ForwardToFfmpeg ap),
             (audioRtcpSplitter s, ForwardToFfmpeg (ap + 1))])"
    by (simp add: c handlers_added_append handlers_added_signaling [OF pre]
        handlers_added_negotiated split: option.split)
  have w: "Ffmpeg_writeStdin (sdp_document cc ff d ap vp) \<in> set (calls_since s s1)"
    if "ffo = Some ff" for ff
    unfolding c that by (simp add: negotiated_calls_def transcoder_calls_def)
  show ?thesis
    using h w by (cases ffo) auto
qed

theorem transcoder_forwarding_witness:
  "start example_createCryptoLine plain_env (Some example_ffmpegOptions) example_session
     = Some (Inr plain_description, started plain_env (Some example_ffmpegOptions) example_session)
   \<and> handlers_added (calls_since example_session
         (started plain_env (Some example_ffmpegOptions) example_session))
       = [(3, ForwardToFfmpeg 20000), (4, ForwardToFfmpeg 20001),
          (1, ForwardToFfmpeg 20002), (2, ForwardToFfmpeg 20003)]
   \<and> handlers_added (calls_since example_session
         (started plain_env (Some audio_only_ffmpegOptions) example_session))
       = [(1, ForwardToFfmpeg 20002), (2, ForwardToFfmpeg 20003)]
   \<and> run_handler example_isStunMessage (ForwardToFfmpeg 20002) ''stun'' = None
   \<and> run_handler example_isStunMessage (ForwardToFfmpeg 20002) ''rtp'' = Some 20002"
proof -
  have h: "start example_createCryptoLine plain_env (Some example_ffmpegOptions) example_session
     = Some (Inr plain_description, started plain_env (Some example_ffmpegOptions) example_session)"
    by (simp add: plain_env_def start_started_example)
  have a: "handlers_added (calls_since example_session
         (started plain_env (Some example_ffmpegOptions) example_session))
       = [(3, ForwardToFfmpeg 20000), (4, ForwardToFfmpeg 20001),
          (1, ForwardToFfmpeg 20002), (2, ForwardToFfmpeg 20003)]"
    by (simp add: plain_env_def started_example start_negotiated_eq calls_since_def
        negotiated_calls_def transcoder_calls_def mux_calls_def plain_description_def
        truthy_opt_def handlers_added_def example_session_simps comp_def
        transcodeVideoStream_def example_ffmpegOptions_def)
  have b: "handlers_added (calls_since example_session
         (started plain_env (Some audio_only_ffmpegOptions) example_session))
       = [(1, ForwardToFfmpeg 20002), (2, ForwardToFfmpeg 20003)]"
    by (simp add: plain_env_def started_example start_negotiated_eq calls_since_def
        negotiated_calls_def transcoder_calls_def mux_calls_def plain_description_def
        truthy_opt_def handlers_added_def example_session_simps comp_def
        transcodeVideoStream_def audio_only_ffmpegOptions_def)
  from transcoder_forwarding [OF h, of example_isStunMessage]
  have "\<forall>p message. run_handler example_isStunMessage (ForwardToFfmpeg p) message
          = (if example_isStunMessage message then None else Some p)"
    by blast
  then have c: "run_handler example_isStunMessage (ForwardToFfmpeg 20002) ''stun'' = None
    \<and> run_handler example_isStunMessage (ForwardToFfmpeg 20002) ''rtp'' = Some 20002"
    by (simp add: example_isStunMessage_def)
  from h a b c show ?thesis by blast
qed

subsection \<open>The binding requests of a round\<close>

text \<open>
  Claim C9 asks that the request for the video stream be built from the video RTCP
  splitter. \<open>sendStunRequests\<close> passes \<open>this.audioRtcpSplitter\<close> in both requests. The
  session on the splitters 1, 2, 3 and 4 is started without ICE and without
  multiplexing; in the round that the keepalive timer sends at 0 ms, the audio request
  has the splitters 1 and 2, and the video request has the RTP splitter 3 and the RTCP
  splitter 2, the audio one, although the video RTCP reference of the session is 4.
\<close>

theorem video_request_carries_audio_rtcp_splitter:
  "map request_wiring
     (stun_requests (calls_since (started plain_env None example_session)
        (elapse 1 (started plain_env None example_session))))
     = [(Audio, 1, 2), (Video, 3, 2)]
   \<and> audioRtcpSplitter (started plain_env None example_session) = 2
   \<and> videoRtcpSplitter (started plain_env None example_session) = 4"
proof -
  let ?S = "started plain_env None example_session"
  have f: "audioSplitter ?S = 1" "audioRtcpSplitter ?S = 2" "videoSplitter ?S = 3"
    "videoRtcpSplitter ?S = 4" "now ?S = 0"
    by (simp_all add: plain_env_def started_example start_negotiated_eq audioRtcp_after_def
        videoRtcp_after_def plain_description_def example_session_simps)
  have t: "filter is_timer (subscriptions ?S) = [(KeepaliveTimer 0 500 plain_description, True)]"
    by (simp add: plain_env_def started_example start_negotiated_eq plain_description_def
        truthy_opt_def example_session_simps)
  have "calls_since ?S (elapse 1 ?S) = stun_round plain_description ?S"
    by (simp add: elapse_keepalive [OF t] calls_since_def keepalive_rounds_def f
        timer_fires_def comp_def)
  then show ?thesis
    by (simp add: stun_round_def stun_requests_def request_wiring_def f)
qed

subsection \<open>Forwarding handlers and multiplexed RTCP\<close>

text \<open>
  Claim C10. \<open>start\<close> is called with ffmpeg options on four distinct splitters and
  returns a description. For a multiplexed stream (audio; video when the video is
  transcoded): the forwarding handler to the stream's RTCP port of the process (its RTP
  port plus one) was registered on the original RTCP splitter, before that splitter was
  closed, and no handler was registered after the close; the RTCP reference of the
  session is the RTP splitter after \<open>start\<close>, and the only handler registered on it
  forwards to the RTP port.
\<close>

theorem rtcp_handler_left_on_closed_splitter:
  assumes "start cc e (Some ff) s = Some (Inr d, s1)"
    and "distinct [audioSplitter s, audioRtcpSplitter s, videoSplitter s, videoRtcpSplitter s]"
  shows "\<exists>audioPort videoPort.
    (port (rd_audio d) = rtcpPort (rd_audio d) \<longrightarrow>
       audioRtcpSplitter s1 = audioSplitter s
       \<and> handlers_on (audioRtcpSplitter s) (calls_since s s1) = [ForwardToFfmpeg (audioPort + 1)]
       \<and> handlers_on (audioRtcpSplitter s1) (calls_since s s1) = [ForwardToFfmpeg audioPort]
       \<and> (\<exists>pre post. calls_since s s1 = pre @ Splitter_close (audioRtcpSplitter s) # post
            \<and> Splitter_addMessageHandler (audioRtcpSplitter s) (ForwardToFfmpeg (audioPort + 1))
                 \<in> set pre
            \<and> handlers_added post = []))
    \<and> (port (rd_video d) = rtcpPort (rd_video d) \<and> transcodeVideoStream ff \<longrightarrow>
       videoRtcpSplitter s1 = videoSplitter s
       \<and> handlers_on (videoRtcpSplitter s) (calls_since s s1) = [ForwardToFfmpeg (videoPort + 1)]
       \<and> handlers_on (videoRtcpSplitter s1) (calls_since s s1) = [ForwardToFfmpeg videoPort]
       \<and> (\<exists>pre post. calls_since s s1 = pre @ Splitter_close (videoRtcpSplitter s) # post
            \<and> Splitter_addMessageHandler (videoRtcpSplitter s) (ForwardToFfmpeg (videoPort + 1))
                 \<in> set pre
            \<and> handlers_added post = []))"
proof -
  note f = start_success_fields [OF assms(1)]
  let ?s = "s\<lparr>sipCall := sipCall s1\<rparr>"
  from start_success_calls [OF assms(1)] obtain ap vp pre where
    c: "calls_since s s1 = pre @ negotiated_calls cc (Some ff) d ap vp ?s"
    and pre: "wiring_calls pre = []"
    by blast
  define ice where "ice =
    (if truthy_opt (iceUFrag (rd_video d))
     then [createStunResponder (audioSplitter ?s), createStunResponder (videoSplitter ?s)]
          @ stun_round d (?s\<lparr>audioRtcpSplitter := audioRtcp_after d ?s\<rparr>)
     else [])"
  have c': "calls_since s s1 = pre @ transcoder_calls cc (Some ff) d ap vp ?s
              @ mux_calls d ?s @ ice"
    by (simp add: c negotiated_calls_def ice_def)
  have hi: "handlers_added ice = []"
    by (auto simp: ice_def handlers_added_def stun_round_def)
  have h: "handlers_added (calls_since s s1) =
          (if transcodeVideoStream ff
           then [(videoSplitter s, ForwardToFfmpeg vp),
                 (videoRtcpSplitter s, ForwardToFfmpeg (vp + 1))]
           else [])
          @ [(audioSplitter s, ForwardToFfmpeg ap),
             (audioRtcpSplitter s, ForwardToFfmpeg (ap + 1))]"
    by (simp add: c handlers_added_append handlers_added_signaling [OF pre]
        handlers_added_negotiated)
  have ta: "Splitter_addMessageHandler (audioRtcpSplitter s) (ForwardToFfmpeg (ap + 1))
              \<in> set (transcoder_calls cc (Some ff) d ap vp ?s)"
    by (simp add: transcoder_calls_def)
  have tv: "Splitter_addMessageHandler (videoRtcpSplitter s) (ForwardToFfmpeg (vp + 1))
              \<in> set (transcoder_calls cc (Some ff) d ap vp ?s)"
    if "transcodeVideoStream ff"
    using that by (simp add: transcoder_calls_def)
  have A: "audioRtcpSplitter s1 = audioSplitter s
       \<and> handlers_on (audioRtcpSplitter s) (calls_since s s1) = [ForwardToFfmpeg (ap + 1)]
       \<and> handlers_on (audioRtcpSplitter s1) (calls_since s s1) = [ForwardToFfmpeg ap]
       \<and> (\<exists>pre post. calls_since s s1 = pre @ Splitter_close (audioRtcpSplitter s) # post
            \<and> Splitter_addMessageHandler (audioRtcpSplitter s) (ForwardToFfmpeg (ap + 1))
                 \<in> set pre
            \<and> handlers_added post = [])"
    if m: "port (rd_audio d) = rtcpPort (rd_audio d)"
  proof -
    have 1: "audioRtcpSplitter s1 = audioSplitter s"
      using m by (simp add: f audioRtcp_after_def)
    have 2: "handlers_on (audioRtcpSplitter s) (calls_since s s1) = [ForwardToFfmpeg (ap + 1)]"
      using assms(2) by (simp add: handlers_on_def h)
    have 3: "handlers_on (audioRtcpSplitter s1) (calls_since s s1) = [ForwardToFfmpeg ap]"
      using assms(2) by (auto simp: handlers_on_def h 1)
    let ?post = "(if port (rd_video d) = rtcpPort (rd_video d)
                  then [Splitter_close (videoRtcpSplitter s)] else []) @ ice"
    have "calls_since s s1 = (pre @ transcoder_calls cc (Some ff) d ap vp ?s)
            @ Splitter_close (audioRtcpSplitter s) # ?post"
      using m by (simp add: c' mux_calls_def)
    moreover have "handlers_added ?post = []"
      by (simp add: handlers_added_append hi) (simp add: handlers_added_def)
    ultimately have 4: "\<exists>pre post. calls_since s s1 = pre @ Splitter_close (audioRtcpSplitter s) # post
            \<and> Splitter_addMessageHandler (audioRtcpSplitter s) (ForwardToFfmpeg (ap + 1))
                 \<in> set pre
            \<and> handlers_added post = []"
      using ta by (intro exI [of _ "pre @ transcoder_calls cc (Some ff) d ap vp ?s"]
          exI [of _ ?post]) simp
    from 1 2 3 4 show ?thesis by blast
  qed
  have V: "videoRtcpSplitter s1 = videoSplitter s
       \<and> handlers_on (videoRtcpSplitter s) (calls_since s s1) = [ForwardToFfmpeg (vp + 1)]
       \<and> handlers_on (videoRtcpSplitter s1) (calls_since s s1) = [ForwardToFfmpeg vp]
       \<and> (\<exists>pre post. calls_since s s1 = pre @ Splitter_close (videoRtcpSplitter s) # post
            \<and> Splitter_addMessageHandler (videoRtcpSplitter s) (ForwardToFfmpeg (vp + 1))
                 \<in> set pre
            \<and> handlers_added post = [])"
    if m: "port (rd_video d) = rtcpPort (rd_video d)" and tr: "transcodeVideoStream ff"
  proof -
    have 1: "videoRtcpSplitter s1 = videoSplitter s"
      using m by (simp add: f videoRtcp_after_def)
    have 2: "handlers_on (videoRtcpSplitter s) (calls_since s s1) = [ForwardToFfmpeg (vp + 1)]"
      using assms(2) tr by (auto simp: handlers_on_def h)
    have 3: "handlers_on (videoRtcpSplitter s1) (calls_since s s1) = [ForwardToFfmpeg vp]"
      using assms(2) tr by (auto simp: handlers_on_def h 1)
    let ?pre = "pre @ transcoder_calls cc (Some ff) d ap vp ?s
                @ (if port (rd_audio d) = rtcpPort (rd_audio d)
                   then [Splitter_close (audioRtcpSplitter s)] else [])"
    have "calls_since s s1 = ?pre @ Splitter_close (videoRtcpSplitter s) # ice"
      using m by (simp add: c' mux_calls_def)
    then have 4: "\<exists>pre post. calls_since s s1 = pre @ Splitter_close (videoRtcpSplitter s) # post
            \<and> Splitter_addMessageHandler (videoRtcpSplitter s) (ForwardToFfmpeg (vp + 1))
                 \<in> set pre
            \<and> handlers_added post = []"
      using tv [OF tr] hi by (intro exI [of _ ?pre] exI [of _ ice]) simp
    from 1 2 3 4 show ?thesis by blast
  qed
  from A V show ?thesis by blast
qed

theorem rtcp_handler_left_on_closed_splitter_witness:
  "start example_createCryptoLine mux_env (Some example_ffmpegOptions) example_session
     = Some (Inr mux_description, started mux_env (Some example_ffmpegOptions) example_session)
   \<and> distinct [audioSplitter example_session, audioRtcpSplitter example_session,
        videoSplitter example_session, videoRtcpSplitter example_session]
   \<and> port (rd_audio mux_description) = rtcpPort (rd_audio mux_description)
   \<and> audioRtcpSplitter (started mux_env (Some example_ffmpegOptions) example_session) = 1
   \<and> (\<exists>audioPort.
        handlers_on 2 (calls_since example_session
          (started mux_env (Some example_ffmpegOptions) example_session))
          = [ForwardToFfmpeg (audioPort + 1)]
        \<and> handlers_on 1 (calls_since example_session
          (started mux_env (Some example_ffmpegOptions) example_session))
          = [ForwardToFfmpeg audioPort])"
proof -
  have h: "start example_createCryptoLine mux_env (Some example_ffmpegOptions) example_session
     = Some (Inr mux_description, started mux_env (Some example_ffmpegOptions) example_session)"
    by (simp add: mux_env_def start_started_example)
  have d: "distinct [audioSplitter example_session, audioRtcpSplitter example_session,
        videoSplitter example_session, videoRtcpSplitter example_session]"
    by (simp add: example_session_simps)
  have m: "port (rd_audio mux_description) = rtcpPort (rd_audio mux_description)"
    by (simp add: mux_description_def)
  from rtcp_handler_left_on_closed_splitter [OF h d] m obtain audioPort where
    "audioRtcpSplitter (started mux_env (Some example_ffmpegOptions) example_session)
       = audioSplitter example_session"
    "handlers_on (audioRtcpSplitter example_session) (calls_since example_session
          (started mux_env (Some example_ffmpegOptions) example_session))
          = [ForwardToFfmpeg (audioPort + 1)]"
    "handlers_on (audioRtcpSplitter
          (started mux_env (Some example_ffmpegOptions) example_session))
       (calls_since example_session
          (started mux_env (Some example_ffmpegOptions) example_session))
          = [ForwardToFfmpeg audioPort]"
    by blast
  then have "audioRtcpSplitter (started mux_env (Some example_ffmpegOptions) example_session) = 1
    \<and> (\<exists>audioPort.
        handlers_on 2 (calls_since example_session
          (started mux_env (Some example_ffmpegOptions) example_session))
          = [ForwardToFfmpeg (audioPort + 1)]
        \<and> handlers_on 1 (calls_since example_session
          (started mux_env (Some example_ffmpegOptions) example_session))
          = [ForwardToFfmpeg audioPort])"
    by (auto simp: example_session_simps)
  with h d m show ?thesis by blast
qed

end
